theory Spec2Isabelle
  imports Complex_Main
begin

section \<open>Values shared by the components\<close>

text \<open>
  A JavaScript \<open>number\<close> is modelled as an exact rational; \<open>Date.now()\<close> is a natural
  number of milliseconds supplied by the environment. Strings are character lists, a
  character standing for a UTF-16 code unit below 256.
\<close>

type_synonym number = rat

text \<open>\<open>Math.floor\<close> and \<open>Math.round\<close> (which rounds halves upwards).\<close>

definition Math_floor :: "number \<Rightarrow> number" where
  "Math_floor v = of_int \<lfloor>v\<rfloor>"

definition Math_round :: "number \<Rightarrow> number" where
  "Math_round v = of_int \<lfloor>v + 1 / 2\<rfloor>"

text \<open>\<open>Number.prototype.toString\<close> on a non-negative integer: its decimal digits.\<close>

fun toString :: "nat \<Rightarrow> string" where
  "toString n =
     (if n < 10 then [char_of (48 + n)]
      else toString (n div 10) @ [char_of (48 + n mod 10)])"

declare toString.simps [simp del]

text \<open>
  Truthiness of a \<open>string | null\<close> value: \<open>null\<close> and the empty string are falsy.
\<close>

definition truthy :: "string option \<Rightarrow> bool" where
  "truthy v = (case v of None \<Rightarrow> False | Some t \<Rightarrow> t \<noteq> [])"

text \<open>\<open>v || undefined\<close> for an optional string.\<close>

definition or_undefined :: "string option \<Rightarrow> string option" where
  "or_undefined v = (if truthy v then v else None)"

text \<open>\<open>String.prototype.split\<close> with a one-character separator.\<close>

fun split :: "char \<Rightarrow> string \<Rightarrow> string list" where
  "split sep [] = [[]]"
| "split sep (c # cs) =
     (if c = sep then [] # split sep cs
      else (case split sep cs of
              [] \<Rightarrow> [[c]]
            | w # ws \<Rightarrow> (c # w) # ws))"

section \<open>CanvasPanel.tsx: data model\<close>

record Point =
  pt_x :: number
  pt_y :: number

record TextNode =
  node_id :: string
  node_text :: string
  node_x :: number
  node_y :: number
  node_width :: number
  node_height :: number
  node_sourceMessageId :: "string option"
  node_sourceChatId :: "string option"
  node_color :: string

datatype ConnectionType = straight | curved | angled

record Connection =
  conn_id :: string
  conn_from :: string
  conn_to :: string
  conn_fromPoint :: Point
  conn_toPoint :: Point
  conn_type :: ConnectionType
  conn_label :: "string option"

record CanvasData =
  canvas_id :: string
  canvas_title :: string
  canvas_nodes :: "TextNode list"
  canvas_connections :: "Connection list"
  canvas_createdAt :: nat
  canvas_lastModified :: nat

text \<open>The result of \<open>getBoundingClientRect()\<close>; \<open>None\<close> stands for an unset \<open>canvasRef\<close>.\<close>

record DOMRect =
  rect_left :: number
  rect_top :: number
  rect_width :: number
  rect_height :: number

text \<open>The \<open>useState\<close> cells of the \<open>CanvasPanel\<close> component.\<close>

record CanvasPanel =
  canvases :: "CanvasData list"
  currentCanvasId :: string
  nodes :: "TextNode list"
  connections :: "Connection list"
  selectedNode :: "string option"
  draggingNode :: "string option"
  dragOffset :: Point
  zoom :: number
  pan :: Point
  isPanning :: bool
  panStart :: Point
  connectingFrom :: "string option"
  connectionStart :: "Point option"

definition colors :: "string list" where
  "colors = [''#3B82F6'', ''#14B8A6'', ''#F97316'', ''#EF4444'', ''#8B5CF6'',
             ''#06B6D4'', ''#84CC16'', ''#F59E0B'', ''#EC4899'', ''#6366F1'']"

text \<open>The initial values of the state cells; \<open>t0\<close> is the time of the first render.\<close>

definition initialCanvasPanel :: "nat \<Rightarrow> CanvasPanel" where
  "initialCanvasPanel t0 =
     \<lparr> canvases = [\<lparr> canvas_id = ''default-canvas'', canvas_title = ''Main Canvas'',
                      canvas_nodes = [], canvas_connections = [],
                      canvas_createdAt = t0, canvas_lastModified = t0 \<rparr>],
       currentCanvasId = ''default-canvas'',
       nodes = [],
       connections = [],
       selectedNode = None,
       draggingNode = None,
       dragOffset = \<lparr> pt_x = 0, pt_y = 0 \<rparr>,
       zoom = 1,
       pan = \<lparr> pt_x = 0, pt_y = 0 \<rparr>,
       isPanning = False,
       panStart = \<lparr> pt_x = 0, pt_y = 0 \<rparr>,
       connectingFrom = None,
       connectionStart = None \<rparr>"

section \<open>CanvasPanel.tsx: coordinate transforms\<close>

text \<open>
  The handlers turn a position relative to the canvas element into canvas space with
  \<open>(position - pan) / zoom\<close>; the element is drawn with the style
  \<open>translate(pan.x, pan.y) scale(zoom)\<close> about the origin \<open>0 0\<close>, which sends a canvas
  point to \<open>point * zoom + pan\<close>.
\<close>

definition screen_to_canvas :: "Point \<Rightarrow> number \<Rightarrow> Point \<Rightarrow> Point" where
  "screen_to_canvas pn z p =
     \<lparr> pt_x = (pt_x p - pt_x pn) / z, pt_y = (pt_y p - pt_y pn) / z \<rparr>"

definition canvas_to_screen :: "Point \<Rightarrow> number \<Rightarrow> Point \<Rightarrow> Point" where
  "canvas_to_screen pn z p =
     \<lparr> pt_x = pt_x p * z + pt_x pn, pt_y = pt_y p * z + pt_y pn \<rparr>"

section \<open>CanvasPanel.tsx: canvas management\<close>

text \<open>
  \<open>updateCanvasData\<close>, the callback the debounce timer runs: the working copies are
  written into the canvas whose identifier is the current one.
\<close>

definition updateCanvasData :: "nat \<Rightarrow> CanvasPanel \<Rightarrow> CanvasPanel" where
  "updateCanvasData now s =
     s\<lparr> canvases :=
          map (\<lambda>canvas.
                 if canvas_id canvas = currentCanvasId s
                 then canvas\<lparr> canvas_nodes := nodes s,
                              canvas_connections := connections s,
                              canvas_lastModified := now \<rparr>
                 else canvas)
              (canvases s) \<rparr>"

text \<open>
  \<open>handleCanvasSelect\<close> looks the canvas up in the \<open>canvases\<close> value of the render that
  created the handler, passed here as \<open>closure\<close>; the setters act on the state \<open>s\<close>.
\<close>

definition handleCanvasSelect :: "CanvasData list \<Rightarrow> string \<Rightarrow> CanvasPanel \<Rightarrow> CanvasPanel" where
  "handleCanvasSelect closure canvasId s =
     (case List.find (\<lambda>c. canvas_id c = canvasId) closure of
        None \<Rightarrow> s
      | Some canvas \<Rightarrow>
          s\<lparr> currentCanvasId := canvasId,
             nodes := canvas_nodes canvas,
             connections := canvas_connections canvas,
             selectedNode := None,
             connectingFrom := None,
             connectionStart := None \<rparr>)"

definition handleNewCanvas :: "nat \<Rightarrow> CanvasPanel \<Rightarrow> CanvasPanel" where
  "handleNewCanvas now s =
     (let newCanvas = \<lparr> canvas_id = ''canvas-'' @ toString now,
                        canvas_title = ''Canvas '' @ toString (length (canvases s) + 1),
                        canvas_nodes = [], canvas_connections = [],
                        canvas_createdAt = now, canvas_lastModified = now \<rparr>
      in handleCanvasSelect (canvases s) (canvas_id newCanvas)
           (s\<lparr> canvases := canvases s @ [newCanvas] \<rparr>))"

text \<open>
  \<open>handleCanvasDelete\<close>. Reading \<open>remainingCanvases[0].id\<close> of an empty array throws a
  \<open>TypeError\<close>; the state update queued before it is still applied, so the handler
  returns the error, if any, together with the state it leaves.
\<close>

datatype error = TypeError

definition handleCanvasDelete :: "string \<Rightarrow> CanvasPanel \<Rightarrow> error option \<times> CanvasPanel" where
  "handleCanvasDelete canvasId s =
     (if length (canvases s) \<le> 1 then (None, s)
      else
        let s1 = s\<lparr> canvases := filter (\<lambda>c. canvas_id c \<noteq> canvasId) (canvases s) \<rparr>
        in if currentCanvasId s = canvasId
           then (case filter (\<lambda>c. canvas_id c \<noteq> canvasId) (canvases s) of
                   [] \<Rightarrow> (Some TypeError, s1)
                 | c # _ \<Rightarrow> (None, handleCanvasSelect (canvases s) (canvas_id c) s1))
           else (None, s1))"

section \<open>CanvasPanel.tsx: dropping text\<close>

text \<open>
  \<open>calculateInitialSize\<close>: the number of words is the length of \<open>text.split(' ')\<close>, the
  number of characters is \<open>text.length\<close>. The result is the pair (width, height).
\<close>

definition calculateInitialSize :: "string \<Rightarrow> number \<times> number" where
  "calculateInitialSize text =
     (let words = of_nat (length (split CHR '' '' text)) :: number;
          chars = of_nat (length text) :: number;
          width = 240;
          height = 120;
          (width, height) =
            (if chars > 100
             then (min 400 (240 + (chars - 100) * (3 / 2)),
                   min 250 (120 + Math_floor ((chars - 100) / 60) * 25))
             else (width, height));
          height =
            (if words > 20
             then min 300 (height + Math_floor ((words - 20) / 12) * 20)
             else height)
      in (Math_round width, Math_round height))"

text \<open>
  The effect that consumes the dropped text. Its inputs are the three props, the
  bounding rectangle of the canvas element and the clock. It returns the new state and
  whether \<open>onTextDragComplete\<close> was called.
\<close>

definition dropped_text_effect ::
  "string option \<Rightarrow> string option \<Rightarrow> string option \<Rightarrow> DOMRect option \<Rightarrow> nat \<Rightarrow>
   CanvasPanel \<Rightarrow> CanvasPanel \<times> bool" where
  "dropped_text_effect draggedText sourceMsgId sourceChatId canvasRef now s =
     (case (draggedText, canvasRef) of
        (Some text, Some rect) \<Rightarrow>
          if text = [] then (s, False)
          else
            let center = screen_to_canvas (pan s) (zoom s)
                           \<lparr> pt_x = rect_width rect / 2, pt_y = rect_height rect / 2 \<rparr>;
                (width, height) = calculateInitialSize text;
                newNode = \<lparr> node_id = toString now,
                            node_text = text,
                            node_x = pt_x center - width / 2,
                            node_y = pt_y center - height / 2,
                            node_width = width,
                            node_height = height,
                            node_sourceMessageId = or_undefined sourceMsgId,
                            node_sourceChatId = or_undefined sourceChatId,
                            node_color = colors ! (length (nodes s) mod length colors) \<rparr>
            in (s\<lparr> nodes := nodes s @ [newNode] \<rparr>, True)
      | _ \<Rightarrow> (s, False))"

section \<open>CanvasPanel.tsx: zooming\<close>

text \<open>\<open>handleWheel\<close>; \<open>overCanvas\<close> says whether the canvas element contains the event target.\<close>

definition handleWheel :: "bool \<Rightarrow> number \<Rightarrow> CanvasPanel \<Rightarrow> CanvasPanel" where
  "handleWheel overCanvas deltaY s =
     (if overCanvas
      then let delta = (if deltaY > 0 then 9 / 10 else 11 / 10)
           in s\<lparr> zoom := max (1 / 2) (min 3 (zoom s * delta)) \<rparr>
      else s)"

definition handleZoomIn :: "CanvasPanel \<Rightarrow> CanvasPanel" where
  "handleZoomIn s = s\<lparr> zoom := min (zoom s * (12 / 10)) 3 \<rparr>"

definition handleZoomOut :: "CanvasPanel \<Rightarrow> CanvasPanel" where
  "handleZoomOut s = s\<lparr> zoom := max (zoom s / (12 / 10)) (1 / 2) \<rparr>"

section \<open>CanvasPanel.tsx: blocks and connections\<close>

definition center_of :: "TextNode \<Rightarrow> Point" where
  "center_of n = \<lparr> pt_x = node_x n + node_width n / 2, pt_y = node_y n + node_height n / 2 \<rparr>"

text \<open>
  \<open>handleBlockMouseDown\<close>. \<open>client\<close> is the pointer position of the event and \<open>now\<close> the
  clock read for the identifier of a new connection.
\<close>

definition handleBlockMouseDown ::
  "Point \<Rightarrow> DOMRect option \<Rightarrow> nat \<Rightarrow> string \<Rightarrow> CanvasPanel \<Rightarrow> CanvasPanel" where
  "handleBlockMouseDown client canvasRef now nodeId s =
     (if truthy (connectingFrom s) \<and> connectingFrom s \<noteq> Some nodeId
      then
        let s1 =
          (case (connectingFrom s,
                 List.find (\<lambda>n. Some (node_id n) = connectingFrom s) (nodes s),
                 List.find (\<lambda>n. node_id n = nodeId) (nodes s),
                 connectionStart s) of
             (Some src, Some fromNode, Some toNode, Some start) \<Rightarrow>
               s\<lparr> connections := connections s @
                     [\<lparr> conn_id = toString now,
                        conn_from = src,
                        conn_to = nodeId,
                        conn_fromPoint = start,
                        conn_toPoint = center_of toNode,
                        conn_type = curved,
                        conn_label = None \<rparr>] \<rparr>
           | _ \<Rightarrow> s)
        in s1\<lparr> connectingFrom := None, connectionStart := None \<rparr>
      else
        let s1 = s\<lparr> draggingNode := Some nodeId, selectedNode := Some nodeId \<rparr>
        in (case (List.find (\<lambda>n. node_id n = nodeId) (nodes s), canvasRef) of
              (Some node, Some rect) \<Rightarrow>
                let p = screen_to_canvas (pan s) (zoom s)
                          \<lparr> pt_x = pt_x client - rect_left rect,
                            pt_y = pt_y client - rect_top rect \<rparr>
                in s1\<lparr> dragOffset := \<lparr> pt_x = pt_x p - node_x node,
                                        pt_y = pt_y p - node_y node \<rparr> \<rparr>
            | _ \<Rightarrow> s1))"

definition handleConnectionStart :: "string \<Rightarrow> Point \<Rightarrow> CanvasPanel \<Rightarrow> CanvasPanel" where
  "handleConnectionStart nodeId point s =
     s\<lparr> connectingFrom := Some nodeId, connectionStart := Some point \<rparr>"

definition handleBlockResize :: "string \<Rightarrow> number \<Rightarrow> number \<Rightarrow> CanvasPanel \<Rightarrow> CanvasPanel" where
  "handleBlockResize nodeId width height s =
     s\<lparr> nodes :=
          map (\<lambda>node. if node_id node = nodeId
                       then node\<lparr> node_width := width, node_height := height \<rparr>
                       else node)
              (nodes s),
        connections :=
          map (\<lambda>conn.
                 case List.find (\<lambda>n. node_id n = nodeId) (nodes s) of
                   None \<Rightarrow> conn
                 | Some node \<Rightarrow>
                     if conn_from conn = nodeId
                     then conn\<lparr> conn_fromPoint :=
                                  \<lparr> pt_x = node_x node + width / 2,
                                    pt_y = node_y node + height / 2 \<rparr> \<rparr>
                     else if conn_to conn = nodeId
                     then conn\<lparr> conn_toPoint :=
                                  \<lparr> pt_x = node_x node + width / 2,
                                    pt_y = node_y node + height / 2 \<rparr> \<rparr>
                     else conn)
              (connections s) \<rparr>"

definition handleMouseMove :: "Point \<Rightarrow> DOMRect option \<Rightarrow> CanvasPanel \<Rightarrow> CanvasPanel" where
  "handleMouseMove client canvasRef s =
     (let s1 =
        (case (draggingNode s, canvasRef) of
           (Some dragging, Some rect) \<Rightarrow>
             if dragging = [] then s
             else
               let p = screen_to_canvas (pan s) (zoom s)
                         \<lparr> pt_x = pt_x client - rect_left rect,
                           pt_y = pt_y client - rect_top rect \<rparr>;
                   newPosition = \<lparr> pt_x = pt_x p - pt_x (dragOffset s),
                                   pt_y = pt_y p - pt_y (dragOffset s) \<rparr>;
                   s2 = s\<lparr> nodes :=
                            map (\<lambda>node. if node_id node = dragging
                                         then node\<lparr> node_x := pt_x newPosition,
                                                    node_y := pt_y newPosition \<rparr>
                                         else node)
                                (nodes s) \<rparr>
               in (case List.find (\<lambda>n. node_id n = dragging) (nodes s) of
                     None \<Rightarrow> s2
                   | Some node \<Rightarrow>
                       s2\<lparr> connections :=
                            map (\<lambda>conn.
                                   if conn_from conn = dragging
                                   then conn\<lparr> conn_fromPoint :=
                                     \<lparr> pt_x = pt_x newPosition + node_width node / 2,
                                       pt_y = pt_y newPosition + node_height node / 2 \<rparr> \<rparr>
                                   else if conn_to conn = dragging
                                   then conn\<lparr> conn_toPoint :=
                                     \<lparr> pt_x = pt_x newPosition + node_width node / 2,
                                       pt_y = pt_y newPosition + node_height node / 2 \<rparr> \<rparr>
                                   else conn)
                                (connections s) \<rparr>)
         | _ \<Rightarrow> s)
      in if isPanning s \<and> canvasRef \<noteq> None
         then s1\<lparr> pan := \<lparr> pt_x = pt_x client - pt_x (panStart s),
                           pt_y = pt_y client - pt_y (panStart s) \<rparr> \<rparr>
         else s1)"

definition handleMouseUp :: "CanvasPanel \<Rightarrow> CanvasPanel" where
  "handleMouseUp s = s\<lparr> draggingNode := None, isPanning := False \<rparr>"

text \<open>\<open>handleCanvasMouseDown\<close>; \<open>onBackground\<close> says whether the target is the canvas element itself.\<close>

definition handleCanvasMouseDown :: "bool \<Rightarrow> Point \<Rightarrow> CanvasPanel \<Rightarrow> CanvasPanel" where
  "handleCanvasMouseDown onBackground client s =
     (if onBackground
      then s\<lparr> selectedNode := None,
              connectingFrom := None,
              connectionStart := None,
              isPanning := True,
              panStart := \<lparr> pt_x = pt_x client - pt_x (pan s),
                             pt_y = pt_y client - pt_y (pan s) \<rparr> \<rparr>
      else s)"

definition handleDeleteNode :: "string \<Rightarrow> CanvasPanel \<Rightarrow> CanvasPanel" where
  "handleDeleteNode nodeId s =
     s\<lparr> nodes := filter (\<lambda>n. node_id n \<noteq> nodeId) (nodes s),
        connections :=
          filter (\<lambda>c. conn_from c \<noteq> nodeId \<and> conn_to c \<noteq> nodeId) (connections s),
        selectedNode := None \<rparr>"

definition handleDeleteConnection :: "string \<Rightarrow> CanvasPanel \<Rightarrow> CanvasPanel" where
  "handleDeleteConnection connectionId s =
     s\<lparr> connections := filter (\<lambda>c. conn_id c \<noteq> connectionId) (connections s) \<rparr>"

section \<open>TextBlock.tsx\<close>

text \<open>The four connection handles of a block: top, right, bottom, left.\<close>

definition updateConnectionPoints :: "number \<Rightarrow> number \<Rightarrow> number \<Rightarrow> number \<Rightarrow> Point list" where
  "updateConnectionPoints x y width height =
     [\<lparr> pt_x = x + width / 2, pt_y = y \<rparr>,
      \<lparr> pt_x = x + width, pt_y = y + height / 2 \<rparr>,
      \<lparr> pt_x = x + width / 2, pt_y = y + height \<rparr>,
      \<lparr> pt_x = x, pt_y = y + height / 2 \<rparr>]"

definition minWidth :: number where "minWidth = 200"
definition maxWidth :: number where "maxWidth = 600"
definition minHeight :: number where "minHeight = 100"
definition maxHeight :: number where "maxHeight = 500"

record ResizeStart =
  rs_x :: number
  rs_y :: number
  rs_width :: number
  rs_height :: number

text \<open>
  The mouse-move handler of a block that is being resized: the clamped size it passes
  to \<open>onResize\<close>.
\<close>

definition resize_mouse_move :: "ResizeStart \<Rightarrow> Point \<Rightarrow> number \<times> number" where
  "resize_mouse_move resizeStart client =
     (let deltaX = pt_x client - rs_x resizeStart;
          deltaY = pt_y client - rs_y resizeStart;
          newWidth = max minWidth (min maxWidth (rs_width resizeStart + deltaX));
          newHeight = max minHeight (min maxHeight (rs_height resizeStart + deltaY))
      in (newWidth, newHeight))"

section \<open>CanvasPanel.tsx: the events of the component\<close>

text \<open>
  Modelled from the spec: the hook \<open>useDebounce\<close> is imported by \<open>CanvasPanel.tsx\<close> but is
  not among the sources. The spec says that the working copies of blocks and connections
  are written back into the canvas list on a 500 ms debounce timer. The event
  \<open>DebouncedUpdate\<close> stands for that timer firing: it runs \<open>updateCanvasData\<close>, which is in
  the source, on the state at that moment. The other events are the handlers and the
  effect of the component, each with the inputs it reads from the environment.
\<close>

datatype canvas_event =
    DroppedText "string option" "string option" "string option" "DOMRect option" nat
  | Wheel bool number
  | BlockMouseDown Point "DOMRect option" nat string
  | ConnectionPointClick string Point
  | ResizeMouseMove string ResizeStart Point
  | MouseMove Point "DOMRect option"
  | MouseUp
  | CanvasMouseDown bool Point
  | ZoomIn
  | ZoomOut
  | DeleteNode string
  | DeleteConnection string
  | CanvasSelect string
  | NewCanvas nat
  | CanvasDelete string
  | DebouncedUpdate nat

fun step :: "canvas_event \<Rightarrow> CanvasPanel \<Rightarrow> CanvasPanel" where
  "step (DroppedText draggedText sourceMsgId sourceChatId canvasRef now) s =
     fst (dropped_text_effect draggedText sourceMsgId sourceChatId canvasRef now s)"
| "step (Wheel overCanvas deltaY) s = handleWheel overCanvas deltaY s"
| "step (BlockMouseDown client canvasRef now nodeId) s =
     handleBlockMouseDown client canvasRef now nodeId s"
| "step (ConnectionPointClick nodeId point) s = handleConnectionStart nodeId point s"
| "step (ResizeMouseMove nodeId resizeStart client) s =
     (let (width, height) = resize_mouse_move resizeStart client
      in handleBlockResize nodeId width height s)"
| "step (MouseMove client canvasRef) s = handleMouseMove client canvasRef s"
| "step MouseUp s = handleMouseUp s"
| "step (CanvasMouseDown onBackground client) s = handleCanvasMouseDown onBackground client s"
| "step ZoomIn s = handleZoomIn s"
| "step ZoomOut s = handleZoomOut s"
| "step (DeleteNode nodeId) s = handleDeleteNode nodeId s"
| "step (DeleteConnection connectionId) s = handleDeleteConnection connectionId s"
| "step (CanvasSelect canvasId) s = handleCanvasSelect (canvases s) canvasId s"
| "step (NewCanvas now) s = handleNewCanvas now s"
| "step (CanvasDelete canvasId) s = snd (handleCanvasDelete canvasId s)"
| "step (DebouncedUpdate now) s = updateCanvasData now s"

text \<open>The state after a sequence of events, oldest first.\<close>

fun run :: "canvas_event list \<Rightarrow> CanvasPanel \<Rightarrow> CanvasPanel" where
  "run [] s = s"
| "run (e # es) s = run es (step e s)"

section \<open>App.tsx\<close>

datatype Theme = light | dark

text \<open>The state cells of the \<open>App\<close> component.\<close>

record App =
  draggedText :: "string option"
  sourceMsgId :: "string option"
  sourceChatId :: "string option"
  highlightedMessageId :: "string option"
  containerWidth :: number
  leftPanelWidth :: number
  currentChatId :: string
  theme :: Theme
  isSidebarOpen :: bool


definition handleTextDragComplete :: "App \<Rightarrow> App" where
  "handleTextDragComplete a =
     a\<lparr> draggedText := None, sourceMsgId := None, sourceChatId := None \<rparr>"





definition handleNewChat :: "nat \<Rightarrow> App \<Rightarrow> App" where
  "handleNewChat now a =
     a\<lparr> currentChatId := ''new-chat-'' @ toString now,
        highlightedMessageId := None,
        draggedText := None,
        sourceMsgId := None,
        sourceChatId := None \<rparr>"

definition handleChatSelect :: "string \<Rightarrow> App \<Rightarrow> App" where
  "handleChatSelect chatId a =
     a\<lparr> currentChatId := chatId, highlightedMessageId := None \<rparr>"


text \<open>
  The dropped-text effect of the canvas panel run against the props that \<open>App\<close> passes
  down: when the effect calls \<open>onTextDragComplete\<close>, \<open>handleTextDragComplete\<close> runs.
\<close>

definition consume_dropped_text ::
  "DOMRect option \<Rightarrow> nat \<Rightarrow> App \<times> CanvasPanel \<Rightarrow> App \<times> CanvasPanel" where
  "consume_dropped_text canvasRef now st =
     (case st of (a, s) \<Rightarrow>
        (case dropped_text_effect (draggedText a) (sourceMsgId a) (sourceChatId a)
                canvasRef now s of
           (s', completed) \<Rightarrow> (if completed then handleTextDragComplete a else a, s')))"

section \<open>ChatPanel.tsx and ChatSidebar.tsx\<close>

datatype MessageType = user | ai

record Message =
  msg_id :: string
  msg_type :: MessageType
  msg_content :: string
  msg_timestamp :: int

record ChatSession =
  chat_id :: string
  chat_title :: string
  chat_messages :: "Message list"
  chat_lastActivity :: int
  chat_unreadCount :: "nat option"

text \<open>The state cells of \<open>ChatPanel\<close>; \<open>currentChatId\<close> is a prop, held by \<open>App\<close>.\<close>

record ChatPanel =
  chatSessions :: "ChatSession list"
  inputValue :: string
  isTyping :: bool









definition handleNewChatClick :: "nat \<Rightarrow> App \<times> ChatPanel \<Rightarrow> App \<times> ChatPanel" where
  "handleNewChatClick now st =
     (case st of (a, s) \<Rightarrow>
        let newChatId = ''new-chat-'' @ toString now;
            newChat = \<lparr> chat_id = newChatId, chat_title = ''New Chat'', chat_messages = [],
                        chat_lastActivity = int now, chat_unreadCount = None \<rparr>
        in (handleChatSelect newChatId a, s\<lparr> chatSessions := newChat # chatSessions s \<rparr>))"

definition handleChatDelete :: "string \<Rightarrow> App \<times> ChatPanel \<Rightarrow> App \<times> ChatPanel" where
  "handleChatDelete chatId st =
     (case st of (a, s) \<Rightarrow>
        let s1 = s\<lparr> chatSessions := filter (\<lambda>chat. chat_id chat \<noteq> chatId) (chatSessions s) \<rparr>
        in if currentChatId a = chatId
           then (case filter (\<lambda>chat. chat_id chat \<noteq> chatId) (chatSessions s) of
                   [] \<Rightarrow> (a, s1)
                 | chat # _ \<Rightarrow> (handleChatSelect (chat_id chat) a, s1))
           else (a, s1))"



text \<open>
  \<open>handleDeleteChat\<close> of the sidebar; \<open>ChatPanel\<close> always passes \<open>handleChatDelete\<close> as
  \<open>onChatDelete\<close>.
\<close>

definition handleDeleteChat :: "string \<Rightarrow> App \<times> ChatPanel \<Rightarrow> App \<times> ChatPanel" where
  "handleDeleteChat chatId st =
     (if length (chatSessions (snd st)) > 1 then handleChatDelete chatId st else st)"

section \<open>CanvasPanel.tsx: the canvas element on screen\<close>

text \<open>
  The canvas element carries \<open>canvasRef\<close> and the style
  \<open>translate(pan.x, pan.y) scale(zoom)\<close> with origin \<open>0 0\<close>; it fills its container, so
  before the transform it occupies the container's box, called \<open>layout\<close> here. The browser
  paints a canvas point at the layout corner plus the transformed point, and
  \<open>getBoundingClientRect()\<close> returns the box of the element after the transform: the
  corner moved by \<open>pan\<close>, the sides scaled by \<open>zoom\<close> (a positive factor).
\<close>

definition getBoundingClientRect :: "DOMRect \<Rightarrow> Point \<Rightarrow> number \<Rightarrow> DOMRect" where
  "getBoundingClientRect layout pn z =
     \<lparr> rect_left = rect_left layout + pt_x pn,
       rect_top = rect_top layout + pt_y pn,
       rect_width = rect_width layout * z,
       rect_height = rect_height layout * z \<rparr>"

definition client_of_canvas :: "DOMRect \<Rightarrow> Point \<Rightarrow> number \<Rightarrow> Point \<Rightarrow> Point" where
  "client_of_canvas layout pn z p =
     \<lparr> pt_x = rect_left layout + pt_x (canvas_to_screen pn z p),
       pt_y = rect_top layout + pt_y (canvas_to_screen pn z p) \<rparr>"

section \<open>App.tsx and CanvasPanel.tsx together\<close>







section \<open>Zoom\<close>

lemma handleCanvasSelect_zoom: "zoom (handleCanvasSelect cl i s) = zoom s"
  by (simp add: handleCanvasSelect_def split: option.splits)

lemma step_zoom_bounds:
  assumes "1 / 2 \<le> zoom s \<and> zoom s \<le> 3"
  shows "1 / 2 \<le> zoom (step e s) \<and> zoom (step e s) \<le> 3"
proof (cases e)
  case (DroppedText d m c r n)
  then show ?thesis using assms
    by (auto simp: dropped_text_effect_def Let_def split: option.splits prod.splits)
next
  case (Wheel b d)
  then show ?thesis using assms by (auto simp: handleWheel_def Let_def max_def min_def)
next
  case (BlockMouseDown cl r n i)
  then show ?thesis using assms
    by (simp add: handleBlockMouseDown_def Let_def split: option.splits prod.splits)
next
  case (ResizeMouseMove i rs cl)
  then show ?thesis using assms
    by (simp add: handleBlockResize_def split: prod.splits)
next
  case (MouseMove cl r)
  then show ?thesis using assms
    by (simp add: handleMouseMove_def Let_def split: option.splits prod.splits)
next
  case ZoomIn
  then show ?thesis using assms by (auto simp: handleZoomIn_def min_def)
next
  case ZoomOut
  then show ?thesis using assms by (auto simp: handleZoomOut_def max_def)
next
  case (CanvasDelete i)
  then show ?thesis using assms
    by (simp add: handleCanvasDelete_def Let_def handleCanvasSelect_zoom split: list.splits)
qed (use assms in \<open>simp_all add: handleConnectionStart_def handleMouseUp_def
      handleCanvasMouseDown_def handleDeleteNode_def handleDeleteConnection_def
      handleCanvasSelect_zoom handleNewCanvas_def Let_def updateCanvasData_def\<close>)

lemma run_zoom_bounds:
  "1 / 2 \<le> zoom s \<and> zoom s \<le> 3 \<Longrightarrow> 1 / 2 \<le> zoom (run es s) \<and> zoom (run es s) \<le> 3"
proof (induction es arbitrary: s)
  case Nil
  then show ?case by simp
next
  case (Cons e es)
  from Cons.prems have "1 / 2 \<le> zoom (step e s) \<and> zoom (step e s) \<le> 3"
    by (rule step_zoom_bounds)
  then show ?case using Cons.IH by simp
qed

lemma initial_zoom: "zoom (initialCanvasPanel t0) = 1"
  by (simp add: initialCanvasPanel_def)

text \<open>
  Claim C4. The component starts with zoom 1. After any sequence of its events, among
  them wheel events and presses of the zoom-in and zoom-out buttons in any order, the
  zoom factor lies between 0.5 and 3.
\<close>

theorem zoom_stays_in_range:
  "1 / 2 \<le> zoom (run es (initialCanvasPanel t0)) \<and> zoom (run es (initialCanvasPanel t0)) \<le> 3"
  by (rule run_zoom_bounds) (simp add: initial_zoom)

text \<open>
  Claim C5, as stated, at zoom 1: one wheel notch with a positive \<open>deltaY\<close> does not
  multiply the zoom by the inverse of 1.1 (which would give 10/11); it gives 9/10.
\<close>

theorem wheel_zoom_out_counterexample:
  "zoom (handleWheel True 1 (initialCanvasPanel 0))
     \<noteq> max (1 / 2) (min 3 (zoom (initialCanvasPanel 0) * inverse (11 / 10)))"
  by (simp add: handleWheel_def initialCanvasPanel_def)

text \<open>
  Claim C5, amended. A wheel notch over the canvas multiplies the zoom by 1.1 when
  \<open>deltaY\<close> is not positive and by 0.9 when it is positive, and the product is then
  clamped to the interval from 0.5 to 3. A wheel event elsewhere changes nothing.
\<close>

theorem wheel_zoom_factor:
  "(deltaY \<le> 0 \<longrightarrow>
      zoom (handleWheel True deltaY s) = max (1 / 2) (min 3 (zoom s * (11 / 10))))
 \<and> (deltaY > 0 \<longrightarrow>
      zoom (handleWheel True deltaY s) = max (1 / 2) (min 3 (zoom s * (9 / 10))))
 \<and> handleWheel False deltaY s = s"
  by (simp add: handleWheel_def)

theorem wheel_zoom_factor_witness:
  "(-1 :: number) \<le> 0 \<and> (1 :: number) > 0
 \<and> zoom (handleWheel True (-1) (initialCanvasPanel 0)) = 11 / 10
 \<and> zoom (handleWheel True 1 (initialCanvasPanel 0)) = 9 / 10"
  using wheel_zoom_factor [of "-1" "initialCanvasPanel 0"]
        wheel_zoom_factor [of 1 "initialCanvasPanel 0"]
  by (simp add: initial_zoom)

section \<open>Coordinate transforms\<close>

text \<open>
  The two formulas of the spec invert each other for a nonzero zoom, and the zoom of
  every state the component reaches is nonzero.
\<close>

lemma transform_formulas_inverse:
  "z \<noteq> 0 \<Longrightarrow> canvas_to_screen pn z (screen_to_canvas pn z p) = p"
  by (simp add: canvas_to_screen_def screen_to_canvas_def)

lemma reachable_zoom_nonzero: "zoom (run es (initialCanvasPanel t0)) \<noteq> 0"
  using run_zoom_bounds [of "initialCanvasPanel t0" es] by (auto simp: initial_zoom)

text \<open>
  What the handlers compute is another matter. They subtract \<open>rect.left\<close> and \<open>rect.top\<close> of
  the bounding rectangle from the pointer and then subtract \<open>pan\<close>; the bounding rectangle
  of the transformed element already contains \<open>pan\<close>. Sending a pointer position to
  canvas space the way the handlers do and painting the result gives the pointer
  position moved back by \<open>pan\<close>.
\<close>

lemma pointer_roundtrip_is_off_by_pan:
  assumes "z \<noteq> 0"
  shows "client_of_canvas layout pn z
           (screen_to_canvas pn z
              \<lparr> pt_x = pt_x client - rect_left (getBoundingClientRect layout pn z),
                pt_y = pt_y client - rect_top (getBoundingClientRect layout pn z) \<rparr>)
         = \<lparr> pt_x = pt_x client - pt_x pn, pt_y = pt_y client - pt_y pn \<rparr>"
  using assms
  by (simp add: client_of_canvas_def canvas_to_screen_def screen_to_canvas_def
        getBoundingClientRect_def)


section \<open>Deleting a block\<close>

lemma filter_other_ids_remove1:
  "distinct (map f xs) \<Longrightarrow> b \<in> set xs \<Longrightarrow> filter (\<lambda>n. f n \<noteq> f b) xs = remove1 b xs"
proof (induction xs)
  case Nil
  then show ?case by simp
next
  case (Cons a xs)
  from Cons.prems(1) have fresh: "f a \<notin> f ` set xs" by simp
  show ?case
  proof (cases "a = b")
    case True
    from fresh have "\<forall>n\<in>set xs. f n \<noteq> f a" by (metis imageI)
    then have "filter (\<lambda>n. f n \<noteq> f a) xs = xs" by (simp add: filter_id_conv)
    with True show ?thesis by simp
  next
    case False
    with Cons.prems have b: "b \<in> set xs" and d: "distinct (map f xs)" by auto
    from fresh b have "f a \<noteq> f b" by (metis imageI)
    with False Cons.IH [OF d b] show ?thesis by simp
  qed
qed

text \<open>
  Claim C1, as stated, fails for the node list when two blocks carry one identifier.
  Three texts are dropped, the first two at the same clock value 1000, so the blocks
  \<open>a\<close> and \<open>b\<close> both have the identifier \<open>1000\<close>. Deleting block \<open>a\<close> leaves only \<open>c\<close>; taking
  exactly \<open>a\<close> out of the list would leave \<open>b\<close> and \<open>c\<close>.
\<close>

theorem delete_removes_same_id_blocks_counterexample:
  "hd (nodes (run
      [DroppedText (Some ''a'') None None
         (Some \<lparr> rect_left = 0, rect_top = 0, rect_width = 800, rect_height = 600 \<rparr>) 1000,
       DroppedText (Some ''b'') None None
         (Some \<lparr> rect_left = 0, rect_top = 0, rect_width = 800, rect_height = 600 \<rparr>) 1000,
       DroppedText (Some ''c'') None None
         (Some \<lparr> rect_left = 0, rect_top = 0, rect_width = 800, rect_height = 600 \<rparr>) 2000]
      (initialCanvasPanel 0)))
   \<in> set (nodes (run
      [DroppedText (Some ''a'') None None
         (Some \<lparr> rect_left = 0, rect_top = 0, rect_width = 800, rect_height = 600 \<rparr>) 1000,
       DroppedText (Some ''b'') None None
         (Some \<lparr> rect_left = 0, rect_top = 0, rect_width = 800, rect_height = 600 \<rparr>) 1000,
       DroppedText (Some ''c'') None None
         (Some \<lparr> rect_left = 0, rect_top = 0, rect_width = 800, rect_height = 600 \<rparr>) 2000]
      (initialCanvasPanel 0)))
 \<and> map node_text (nodes (handleDeleteNode
      (node_id (hd (nodes (run
        [DroppedText (Some ''a'') None None
           (Some \<lparr> rect_left = 0, rect_top = 0, rect_width = 800, rect_height = 600 \<rparr>) 1000,
         DroppedText (Some ''b'') None None
           (Some \<lparr> rect_left = 0, rect_top = 0, rect_width = 800, rect_height = 600 \<rparr>) 1000,
         DroppedText (Some ''c'') None None
           (Some \<lparr> rect_left = 0, rect_top = 0, rect_width = 800, rect_height = 600 \<rparr>) 2000]
        (initialCanvasPanel 0)))))
      (run
        [DroppedText (Some ''a'') None None
           (Some \<lparr> rect_left = 0, rect_top = 0, rect_width = 800, rect_height = 600 \<rparr>) 1000,
         DroppedText (Some ''b'') None None
           (Some \<lparr> rect_left = 0, rect_top = 0, rect_width = 800, rect_height = 600 \<rparr>) 1000,
         DroppedText (Some ''c'') None None
           (Some \<lparr> rect_left = 0, rect_top = 0, rect_width = 800, rect_height = 600 \<rparr>) 2000]
        (initialCanvasPanel 0)))) = [''c'']
 \<and> map node_text (remove1
      (hd (nodes (run
        [DroppedText (Some ''a'') None None
           (Some \<lparr> rect_left = 0, rect_top = 0, rect_width = 800, rect_height = 600 \<rparr>) 1000,
         DroppedText (Some ''b'') None None
           (Some \<lparr> rect_left = 0, rect_top = 0, rect_width = 800, rect_height = 600 \<rparr>) 1000,
         DroppedText (Some ''c'') None None
           (Some \<lparr> rect_left = 0, rect_top = 0, rect_width = 800, rect_height = 600 \<rparr>) 2000]
        (initialCanvasPanel 0))))
      (nodes (run
        [DroppedText (Some ''a'') None None
           (Some \<lparr> rect_left = 0, rect_top = 0, rect_width = 800, rect_height = 600 \<rparr>) 1000,
         DroppedText (Some ''b'') None None
           (Some \<lparr> rect_left = 0, rect_top = 0, rect_width = 800, rect_height = 600 \<rparr>) 1000,
         DroppedText (Some ''c'') None None
           (Some \<lparr> rect_left = 0, rect_top = 0, rect_width = 800, rect_height = 600 \<rparr>) 2000]
        (initialCanvasPanel 0)))) = [''b'', ''c'']"
  by code_simp

text \<open>
  Claim C1, amended. Let \<open>B\<close> be a block of the working node list. Deleting it keeps exactly
  the connections whose \<open>from\<close> and \<open>to\<close> both differ from \<open>B\<close>'s identifier, in their order
  and unchanged, so every connection that names \<open>B\<close> at either end is gone and no other
  is. From the node list it removes every block that carries \<open>B\<close>'s identifier and keeps
  every other block, in order and unchanged; when the identifiers of the list are
  unique, that is the old list with exactly \<open>B\<close> taken out.
\<close>

theorem handleDeleteNode_cascade:
  assumes "B \<in> set (nodes s)"
  shows "connections (handleDeleteNode (node_id B) s) =
           filter (\<lambda>c. conn_from c \<noteq> node_id B \<and> conn_to c \<noteq> node_id B) (connections s)
       \<and> (\<forall>c \<in> set (connections s).
            c \<in> set (connections (handleDeleteNode (node_id B) s))
              \<longleftrightarrow> \<not> (conn_from c = node_id B \<or> conn_to c = node_id B))
       \<and> nodes (handleDeleteNode (node_id B) s) =
           filter (\<lambda>n. node_id n \<noteq> node_id B) (nodes s)
       \<and> B \<notin> set (nodes (handleDeleteNode (node_id B) s))
       \<and> (\<forall>n \<in> set (nodes s).
            n \<in> set (nodes (handleDeleteNode (node_id B) s)) \<longleftrightarrow> node_id n \<noteq> node_id B)
       \<and> (distinct (map node_id (nodes s)) \<longrightarrow>
            nodes (handleDeleteNode (node_id B) s) = remove1 B (nodes s))"
  using assms by (auto simp: handleDeleteNode_def filter_other_ids_remove1)

theorem handleDeleteNode_cascade_witness:
  "let A = \<lparr> node_id = ''1'', node_text = ''a'', node_x = 0, node_y = 0,
             node_width = 240, node_height = 120, node_sourceMessageId = None,
             node_sourceChatId = None, node_color = ''#3B82F6'' \<rparr>;
       B = A\<lparr> node_id := ''2'', node_x := 300 \<rparr>;
       C = A\<lparr> node_id := ''3'', node_x := 600 \<rparr>;
       ab = \<lparr> conn_id = ''4'', conn_from = ''1'', conn_to = ''2'',
              conn_fromPoint = \<lparr> pt_x = 240, pt_y = 60 \<rparr>,
              conn_toPoint = \<lparr> pt_x = 420, pt_y = 60 \<rparr>,
              conn_type = curved, conn_label = None \<rparr>;
       bc = ab\<lparr> conn_id := ''5'', conn_from := ''2'', conn_to := ''3'' \<rparr>;
       s = (initialCanvasPanel 0)\<lparr> nodes := [A, B, C], connections := [ab, bc] \<rparr>
   in A \<in> set (nodes s) \<and> distinct (map node_id (nodes s))
      \<and> connections (handleDeleteNode (node_id A) s) = [bc]
      \<and> nodes (handleDeleteNode (node_id A) s) = [B, C]"
proof -
  define A where "A = \<lparr> node_id = ''1'', node_text = ''a'', node_x = 0, node_y = 0,
             node_width = 240, node_height = 120, node_sourceMessageId = None,
             node_sourceChatId = None, node_color = ''#3B82F6'' \<rparr>"
  define ab where "ab = \<lparr> conn_id = ''4'', conn_from = ''1'', conn_to = ''2'',
              conn_fromPoint = \<lparr> pt_x = 240, pt_y = 60 \<rparr>,
              conn_toPoint = \<lparr> pt_x = 420, pt_y = 60 \<rparr>,
              conn_type = curved, conn_label = None \<rparr>"
  define s where "s = (initialCanvasPanel 0)\<lparr> nodes := [A, A\<lparr> node_id := ''2'', node_x := 300 \<rparr>,
                        A\<lparr> node_id := ''3'', node_x := 600 \<rparr>],
                     connections := [ab, ab\<lparr> conn_id := ''5'', conn_from := ''2'', conn_to := ''3'' \<rparr>] \<rparr>"
  have h: "A \<in> set (nodes s)" by (simp add: s_def)
  have d: "distinct (map node_id (nodes s))" by (simp add: s_def A_def)
  from handleDeleteNode_cascade [OF h] d h show ?thesis
    unfolding Let_def A_def [symmetric] ab_def [symmetric] s_def [symmetric]
    by (simp add: s_def A_def ab_def)
qed


section \<open>Connections never link a block to itself\<close>

lemma find_Some_in_set: "List.find P xs = Some x \<Longrightarrow> x \<in> set xs \<and> P x"
  by (induction xs) (auto split: if_splits)

lemma handleCanvasSelect_loop_free:
  assumes "\<forall>c\<in>set (connections s). conn_from c \<noteq> conn_to c"
    and "\<forall>cv\<in>set cl. \<forall>c\<in>set (canvas_connections cv). conn_from c \<noteq> conn_to c"
  shows "\<forall>c\<in>set (connections (handleCanvasSelect cl i s)). conn_from c \<noteq> conn_to c"
proof (cases "List.find (\<lambda>c. canvas_id c = i) cl")
  case None
  then show ?thesis using assms(1) by (simp add: handleCanvasSelect_def)
next
  case (Some cv)
  then have "cv \<in> set cl" by (simp add: find_Some_in_set)
  with assms(2) have "\<forall>c\<in>set (canvas_connections cv). conn_from c \<noteq> conn_to c" by blast
  with Some show ?thesis by (simp add: handleCanvasSelect_def)
qed

lemma handleCanvasSelect_canvases: "canvases (handleCanvasSelect cl i s) = canvases s"
  by (simp add: handleCanvasSelect_def split: option.splits)

lemma handleBlockMouseDown_loop_free:
  assumes "\<forall>c\<in>set (connections s). conn_from c \<noteq> conn_to c"
  shows "\<forall>c\<in>set (connections (handleBlockMouseDown cl r n i s)). conn_from c \<noteq> conn_to c"
  using assms
  by (auto simp: handleBlockMouseDown_def Let_def split: option.splits prod.splits)

lemma handleBlockMouseDown_canvases: "canvases (handleBlockMouseDown cl r n i s) = canvases s"
  by (simp add: handleBlockMouseDown_def Let_def split: option.splits prod.splits)

lemma handleBlockResize_loop_free:
  assumes "\<forall>c\<in>set (connections s). conn_from c \<noteq> conn_to c"
  shows "\<forall>c\<in>set (connections (handleBlockResize i w h s)). conn_from c \<noteq> conn_to c"
  using assms by (auto simp: handleBlockResize_def split: option.splits)

lemma handleMouseMove_loop_free:
  assumes "\<forall>c\<in>set (connections s). conn_from c \<noteq> conn_to c"
  shows "\<forall>c\<in>set (connections (handleMouseMove cl r s)). conn_from c \<noteq> conn_to c"
  using assms
  by (auto simp: handleMouseMove_def Let_def split: option.splits prod.splits)

lemma handleMouseMove_canvases: "canvases (handleMouseMove cl r s) = canvases s"
  by (simp add: handleMouseMove_def Let_def split: option.splits prod.splits)

lemma handleCanvasDelete_canvases_eq:
  "canvases (snd (handleCanvasDelete i s)) =
     (if length (canvases s) \<le> 1 then canvases s
      else filter (\<lambda>c. canvas_id c \<noteq> i) (canvases s))"
  by (simp add: handleCanvasDelete_def Let_def handleCanvasSelect_canvases split: list.splits)

lemma handleCanvasDelete_canvases:
  "set (canvases (snd (handleCanvasDelete i s))) \<subseteq> set (canvases s)"
  by (auto simp: handleCanvasDelete_canvases_eq)

lemma handleCanvasDelete_loop_free:
  assumes w: "\<forall>c\<in>set (connections s). conn_from c \<noteq> conn_to c"
    and st: "\<forall>cv\<in>set (canvases s). \<forall>c\<in>set (canvas_connections cv). conn_from c \<noteq> conn_to c"
  shows "\<forall>c\<in>set (connections (snd (handleCanvasDelete i s))). conn_from c \<noteq> conn_to c"
proof -
  let ?s1 = "s\<lparr> canvases := filter (\<lambda>c. canvas_id c \<noteq> i) (canvases s) \<rparr>"
  have w1: "\<forall>c\<in>set (connections ?s1). conn_from c \<noteq> conn_to c" using w by simp
  show ?thesis
    using handleCanvasSelect_loop_free [OF w1 st] w
    by (simp add: handleCanvasDelete_def Let_def split: list.splits)
qed

lemma step_loop_free:
  assumes w: "\<forall>c\<in>set (connections s). conn_from c \<noteq> conn_to c"
    and st: "\<forall>cv\<in>set (canvases s). \<forall>c\<in>set (canvas_connections cv). conn_from c \<noteq> conn_to c"
  shows "(\<forall>c\<in>set (connections (step e s)). conn_from c \<noteq> conn_to c)
       \<and> (\<forall>cv\<in>set (canvases (step e s)).
            \<forall>c\<in>set (canvas_connections cv). conn_from c \<noteq> conn_to c)"
proof (cases e)
  case (DroppedText d m c r n)
  then show ?thesis using w st
    by (auto simp: dropped_text_effect_def Let_def split: option.splits prod.splits)
next
  case (Wheel b d)
  then show ?thesis using w st by (simp add: handleWheel_def Let_def)
next
  case (BlockMouseDown cl r n i)
  then show ?thesis
    using handleBlockMouseDown_loop_free [OF w] st by (simp add: handleBlockMouseDown_canvases)
next
  case (ConnectionPointClick i p)
  then show ?thesis using w st by (simp add: handleConnectionStart_def)
next
  case (ResizeMouseMove i rs cl)
  then show ?thesis
    using handleBlockResize_loop_free [OF w] st
    by (simp add: handleBlockResize_def split: prod.splits)
next
  case (MouseMove cl r)
  then show ?thesis
    using handleMouseMove_loop_free [OF w] st by (simp add: handleMouseMove_canvases)
next
  case MouseUp
  then show ?thesis using w st by (simp add: handleMouseUp_def)
next
  case (CanvasMouseDown b cl)
  then show ?thesis using w st by (simp add: handleCanvasMouseDown_def)
next
  case ZoomIn
  then show ?thesis using w st by (simp add: handleZoomIn_def)
next
  case ZoomOut
  then show ?thesis using w st by (simp add: handleZoomOut_def)
next
  case (DeleteNode i)
  then show ?thesis using w st by (simp add: handleDeleteNode_def)
next
  case (DeleteConnection i)
  then show ?thesis using w st by (simp add: handleDeleteConnection_def)
next
  case (CanvasSelect i)
  then show ?thesis
    using handleCanvasSelect_loop_free [OF w st] st by (simp add: handleCanvasSelect_canvases)
next
  case (NewCanvas n)
  let ?s1 = "s\<lparr> canvases := canvases s @
     [\<lparr> canvas_id = ''canvas-'' @ toString n,
        canvas_title = ''Canvas '' @ toString (length (canvases s) + 1),
        canvas_nodes = [], canvas_connections = [],
        canvas_createdAt = n, canvas_lastModified = n \<rparr>] \<rparr>"
  have w1: "\<forall>c\<in>set (connections ?s1). conn_from c \<noteq> conn_to c" using w by simp
  have "\<forall>cv\<in>set (canvases ?s1). \<forall>c\<in>set (canvas_connections cv). conn_from c \<noteq> conn_to c"
    using st by auto
  with NewCanvas handleCanvasSelect_loop_free [OF w1 st] show ?thesis
    by (simp add: handleNewCanvas_def Let_def handleCanvasSelect_canvases)
next
  case (CanvasDelete i)
  then show ?thesis
    using handleCanvasDelete_loop_free [OF w st, of i] handleCanvasDelete_canvases [of i s] st
    by auto
next
  case (DebouncedUpdate n)
  then show ?thesis using w st by (auto simp: updateCanvasData_def)
qed

lemma run_loop_free:
  assumes "\<forall>c\<in>set (connections s). conn_from c \<noteq> conn_to c"
    and "\<forall>cv\<in>set (canvases s). \<forall>c\<in>set (canvas_connections cv). conn_from c \<noteq> conn_to c"
  shows "(\<forall>c\<in>set (connections (run es s)). conn_from c \<noteq> conn_to c)
       \<and> (\<forall>cv\<in>set (canvases (run es s)).
            \<forall>c\<in>set (canvas_connections cv). conn_from c \<noteq> conn_to c)"
  using assms
proof (induction es arbitrary: s)
  case Nil
  then show ?case by simp
next
  case (Cons e es)
  from step_loop_free [OF Cons.prems] Cons.IH [of "step e s"] show ?case by simp
qed

text \<open>
  Claim C10. In every state the component reaches, no connection of the working list and
  no connection stored in any canvas has equal \<open>from\<close> and \<open>to\<close> identifiers. When the
  connection mode is armed from a block, a mouse-down on that same block completes
  nothing: the connection list stays as it is and the block starts to be dragged.
\<close>

theorem no_self_connection:
  "(\<forall>c\<in>set (connections (run es (initialCanvasPanel t0))). conn_from c \<noteq> conn_to c)
 \<and> (\<forall>cv\<in>set (canvases (run es (initialCanvasPanel t0))).
      \<forall>c\<in>set (canvas_connections cv). conn_from c \<noteq> conn_to c)
 \<and> (connectingFrom s = Some a \<longrightarrow>
      connections (handleBlockMouseDown client canvasRef now a s) = connections s
      \<and> draggingNode (handleBlockMouseDown client canvasRef now a s) = Some a)"
proof -
  have "(\<forall>c\<in>set (connections (run es (initialCanvasPanel t0))). conn_from c \<noteq> conn_to c)
    \<and> (\<forall>cv\<in>set (canvases (run es (initialCanvasPanel t0))).
         \<forall>c\<in>set (canvas_connections cv). conn_from c \<noteq> conn_to c)"
    by (rule run_loop_free) (simp_all add: initialCanvasPanel_def)
  moreover have "connectingFrom s = Some a \<longrightarrow>
      connections (handleBlockMouseDown client canvasRef now a s) = connections s
      \<and> draggingNode (handleBlockMouseDown client canvasRef now a s) = Some a"
    by (simp add: handleBlockMouseDown_def Let_def split: option.splits)
  ultimately show ?thesis by blast
qed

theorem no_self_connection_witness:
  "(\<exists>c\<in>set (connections (run
        [DroppedText (Some ''hello'') (Some ''1'') (Some ''project-discussion'')
           (Some \<lparr> rect_left = 0, rect_top = 0, rect_width = 800, rect_height = 600 \<rparr>) 1000,
         DroppedText (Some ''world'') (Some ''2'') (Some ''project-discussion'')
           (Some \<lparr> rect_left = 0, rect_top = 0, rect_width = 800, rect_height = 600 \<rparr>) 2000,
         ConnectionPointClick ''1000'' \<lparr> pt_x = 520, pt_y = 300 \<rparr>,
         BlockMouseDown \<lparr> pt_x = 400, pt_y = 300 \<rparr>
           (Some \<lparr> rect_left = 0, rect_top = 0, rect_width = 800, rect_height = 600 \<rparr>) 3000 ''2000'',
         DebouncedUpdate 3500] (initialCanvasPanel 0))).
      conn_from c = ''1000'' \<and> conn_to c = ''2000'' \<and> conn_from c \<noteq> conn_to c)
 \<and> (\<exists>cv\<in>set (canvases (run
        [DroppedText (Some ''hello'') (Some ''1'') (Some ''project-discussion'')
           (Some \<lparr> rect_left = 0, rect_top = 0, rect_width = 800, rect_height = 600 \<rparr>) 1000,
         DroppedText (Some ''world'') (Some ''2'') (Some ''project-discussion'')
           (Some \<lparr> rect_left = 0, rect_top = 0, rect_width = 800, rect_height = 600 \<rparr>) 2000,
         ConnectionPointClick ''1000'' \<lparr> pt_x = 520, pt_y = 300 \<rparr>,
         BlockMouseDown \<lparr> pt_x = 400, pt_y = 300 \<rparr>
           (Some \<lparr> rect_left = 0, rect_top = 0, rect_width = 800, rect_height = 600 \<rparr>) 3000 ''2000'',
         DebouncedUpdate 3500] (initialCanvasPanel 0))).
      \<exists>c\<in>set (canvas_connections cv). conn_from c \<noteq> conn_to c)
 \<and> connectingFrom (handleConnectionStart ''1000'' \<lparr> pt_x = 520, pt_y = 300 \<rparr>
        (initialCanvasPanel 0)) = Some ''1000''
 \<and> draggingNode (handleBlockMouseDown \<lparr> pt_x = 400, pt_y = 300 \<rparr> None 3000 ''1000''
        (handleConnectionStart ''1000'' \<lparr> pt_x = 520, pt_y = 300 \<rparr> (initialCanvasPanel 0)))
      = Some ''1000''"
proof -
  let ?r = "Some \<lparr> rect_left = 0, rect_top = 0, rect_width = 800, rect_height = 600 \<rparr>"
  let ?es = "[DroppedText (Some ''hello'') (Some ''1'') (Some ''project-discussion'') ?r 1000,
         DroppedText (Some ''world'') (Some ''2'') (Some ''project-discussion'') ?r 2000,
         ConnectionPointClick ''1000'' \<lparr> pt_x = 520, pt_y = 300 \<rparr>,
         BlockMouseDown \<lparr> pt_x = 400, pt_y = 300 \<rparr> ?r 3000 ''2000'',
         DebouncedUpdate 3500]"
  let ?s = "handleConnectionStart ''1000'' \<lparr> pt_x = 520, pt_y = 300 \<rparr> (initialCanvasPanel 0)"
  have ends: "map (\<lambda>c. (conn_from c, conn_to c)) (connections (run ?es (initialCanvasPanel 0)))
                = [(''1000'', ''2000'')]"
    by code_simp
  have stored: "map (\<lambda>cv. map (\<lambda>c. (conn_from c, conn_to c)) (canvas_connections cv))
                  (canvases (run ?es (initialCanvasPanel 0))) = [[(''1000'', ''2000'')]]"
    by code_simp
  have armed: "connectingFrom ?s = Some ''1000''"
    by (simp add: handleConnectionStart_def)
  note inst = no_self_connection [of ?es 0 ?s "''1000''" "\<lparr> pt_x = 400, pt_y = 300 \<rparr>" None 3000]
  from ends obtain c where c: "connections (run ?es (initialCanvasPanel 0)) = [c]"
    and c_ends: "conn_from c = ''1000''" "conn_to c = ''2000''"
    by auto
  from stored obtain cv c' where cv: "canvases (run ?es (initialCanvasPanel 0)) = [cv]"
    and c': "canvas_connections cv = [c']"
    by auto
  from inst c c_ends have 1: "\<exists>c\<in>set (connections (run ?es (initialCanvasPanel 0))).
      conn_from c = ''1000'' \<and> conn_to c = ''2000'' \<and> conn_from c \<noteq> conn_to c"
    by simp
  from inst cv c' have 2: "\<exists>cv\<in>set (canvases (run ?es (initialCanvasPanel 0))).
      \<exists>c\<in>set (canvas_connections cv). conn_from c \<noteq> conn_to c"
    by simp
  from inst armed have 3: "draggingNode (handleBlockMouseDown \<lparr> pt_x = 400, pt_y = 300 \<rparr> None 3000 ''1000'' ?s)
      = Some ''1000''"
    by blast
  from 1 2 3 armed show ?thesis by blast
qed

section \<open>Completing a connection\<close>

lemma toString_not_empty: "toString n \<noteq> []"
  by (subst toString.simps) simp

lemma handleCanvasSelect_ids:
  assumes "\<forall>n\<in>set (nodes s). node_id n \<noteq> []"
    and "\<forall>cv\<in>set cl. \<forall>n\<in>set (canvas_nodes cv). node_id n \<noteq> []"
  shows "\<forall>n\<in>set (nodes (handleCanvasSelect cl i s)). node_id n \<noteq> []"
proof (cases "List.find (\<lambda>c. canvas_id c = i) cl")
  case None
  then show ?thesis using assms(1) by (simp add: handleCanvasSelect_def)
next
  case (Some cv)
  then have "cv \<in> set cl" by (simp add: find_Some_in_set)
  with assms(2) have "\<forall>n\<in>set (canvas_nodes cv). node_id n \<noteq> []" by blast
  with Some show ?thesis by (simp add: handleCanvasSelect_def)
qed

lemma handleBlockMouseDown_nodes: "nodes (handleBlockMouseDown cl r n i s) = nodes s"
  by (simp add: handleBlockMouseDown_def Let_def split: option.splits prod.splits)

lemma map_id_move:
  "map node_id
     (map (\<lambda>node. if node_id node = d then node\<lparr> node_x := a, node_y := b \<rparr> else node) ns)
     = map node_id ns"
  by (induction ns) auto

lemma map_id_resize:
  "map node_id
     (map (\<lambda>node. if node_id node = d then node\<lparr> node_width := a, node_height := b \<rparr>
                  else node) ns)
     = map node_id ns"
  by (induction ns) auto

lemma handleMouseMove_ids:
  "map node_id (nodes (handleMouseMove cl r s)) = map node_id (nodes s)"
  by (simp add: handleMouseMove_def Let_def map_id_move del: map_map
           split: option.splits prod.splits)

lemma handleBlockResize_ids:
  "map node_id (nodes (handleBlockResize i w h s)) = map node_id (nodes s)"
  by (simp add: handleBlockResize_def map_id_resize del: map_map)

lemma ids_of_map: "(\<forall>n\<in>set ns. node_id n \<noteq> []) \<longleftrightarrow> (\<forall>i\<in>set (map node_id ns). i \<noteq> [])"
  by simp

lemma handleCanvasDelete_ids:
  assumes w: "\<forall>n\<in>set (nodes s). node_id n \<noteq> []"
    and st: "\<forall>cv\<in>set (canvases s). \<forall>n\<in>set (canvas_nodes cv). node_id n \<noteq> []"
  shows "\<forall>n\<in>set (nodes (snd (handleCanvasDelete i s))). node_id n \<noteq> []"
proof -
  let ?s1 = "s\<lparr> canvases := filter (\<lambda>c. canvas_id c \<noteq> i) (canvases s) \<rparr>"
  have w1: "\<forall>n\<in>set (nodes ?s1). node_id n \<noteq> []" using w by simp
  show ?thesis
    using handleCanvasSelect_ids [OF w1 st] w
    by (simp add: handleCanvasDelete_def Let_def split: list.splits)
qed

lemma step_ids:
  assumes w: "\<forall>n\<in>set (nodes s). node_id n \<noteq> []"
    and st: "\<forall>cv\<in>set (canvases s). \<forall>n\<in>set (canvas_nodes cv). node_id n \<noteq> []"
  shows "(\<forall>n\<in>set (nodes (step e s)). node_id n \<noteq> [])
       \<and> (\<forall>cv\<in>set (canvases (step e s)). \<forall>n\<in>set (canvas_nodes cv). node_id n \<noteq> [])"
proof (cases e)
  case (DroppedText d m c r n)
  then show ?thesis using w st
    by (auto simp: dropped_text_effect_def Let_def toString_not_empty
             split: option.splits prod.splits)
next
  case (Wheel b d)
  then show ?thesis using w st by (simp add: handleWheel_def Let_def)
next
  case (BlockMouseDown cl r n i)
  then show ?thesis
    using w st by (simp add: handleBlockMouseDown_nodes handleBlockMouseDown_canvases)
next
  case (ConnectionPointClick i p)
  then show ?thesis using w st by (simp add: handleConnectionStart_def)
next
  case (ResizeMouseMove i rs cl)
  obtain wd ht where sz: "resize_mouse_move rs cl = (wd, ht)" by (cases "resize_mouse_move rs cl")
  have "\<forall>n\<in>set (nodes (handleBlockResize i wd ht s)). node_id n \<noteq> []"
    using w unfolding ids_of_map handleBlockResize_ids .
  moreover have "canvases (handleBlockResize i wd ht s) = canvases s"
    by (simp add: handleBlockResize_def)
  ultimately show ?thesis using ResizeMouseMove sz st by simp
next
  case (MouseMove cl r)
  have "\<forall>n\<in>set (nodes (handleMouseMove cl r s)). node_id n \<noteq> []"
    using w unfolding ids_of_map handleMouseMove_ids .
  then show ?thesis using MouseMove st by (simp add: handleMouseMove_canvases)
next
  case MouseUp
  then show ?thesis using w st by (simp add: handleMouseUp_def)
next
  case (CanvasMouseDown b cl)
  then show ?thesis using w st by (simp add: handleCanvasMouseDown_def)
next
  case ZoomIn
  then show ?thesis using w st by (simp add: handleZoomIn_def)
next
  case ZoomOut
  then show ?thesis using w st by (simp add: handleZoomOut_def)
next
  case (DeleteNode i)
  then show ?thesis using w st by (simp add: handleDeleteNode_def)
next
  case (DeleteConnection i)
  then show ?thesis using w st by (simp add: handleDeleteConnection_def)
next
  case (CanvasSelect i)
  then show ?thesis
    using handleCanvasSelect_ids [OF w st] st by (simp add: handleCanvasSelect_canvases)
next
  case (NewCanvas n)
  let ?s1 = "s\<lparr> canvases := canvases s @
     [\<lparr> canvas_id = ''canvas-'' @ toString n,
        canvas_title = ''Canvas '' @ toString (length (canvases s) + 1),
        canvas_nodes = [], canvas_connections = [],
        canvas_createdAt = n, canvas_lastModified = n \<rparr>] \<rparr>"
  have w1: "\<forall>n\<in>set (nodes ?s1). node_id n \<noteq> []" using w by simp
  have "\<forall>cv\<in>set (canvases ?s1). \<forall>n\<in>set (canvas_nodes cv). node_id n \<noteq> []"
    using st by auto
  with NewCanvas handleCanvasSelect_ids [OF w1 st] show ?thesis
    by (simp add: handleNewCanvas_def Let_def handleCanvasSelect_canvases)
next
  case (CanvasDelete i)
  then show ?thesis
    using handleCanvasDelete_ids [OF w st, of i] handleCanvasDelete_canvases [of i s] st
    by auto
next
  case (DebouncedUpdate n)
  then show ?thesis using w st by (auto simp: updateCanvasData_def)
qed

lemma run_ids:
  assumes "\<forall>n\<in>set (nodes s). node_id n \<noteq> []"
    and "\<forall>cv\<in>set (canvases s). \<forall>n\<in>set (canvas_nodes cv). node_id n \<noteq> []"
  shows "(\<forall>n\<in>set (nodes (run es s)). node_id n \<noteq> [])
       \<and> (\<forall>cv\<in>set (canvases (run es s)). \<forall>n\<in>set (canvas_nodes cv). node_id n \<noteq> [])"
  using assms
proof (induction es arbitrary: s)
  case Nil
  then show ?case by simp
next
  case (Cons e es)
  from step_ids [OF Cons.prems] Cons.IH [of "step e s"] show ?case by simp
qed

lemma find_by_unique_id:
  "distinct (map f xs) \<Longrightarrow> x \<in> set xs \<Longrightarrow> List.find (\<lambda>n. f n = f x) xs = Some x"
proof (induction xs)
  case Nil
  then show ?case by simp
next
  case (Cons a xs)
  from Cons.prems(1) have fresh: "f a \<notin> f ` set xs" by simp
  show ?case
  proof (cases "a = x")
    case True
    then show ?thesis by simp
  next
    case False
    with Cons.prems have x: "x \<in> set xs" and d: "distinct (map f xs)" by auto
    from fresh x have "f a \<noteq> f x" by (metis imageI)
    with Cons.IH [OF d x] show ?thesis by simp
  qed
qed

lemma gesture_completes:
  assumes A: "A \<in> set (nodes s)" and B: "B \<in> set (nodes s)"
    and d: "distinct (map node_id (nodes s))"
    and ne: "node_id A \<noteq> node_id B" and nonempty: "node_id A \<noteq> []"
  shows "connections (handleBlockMouseDown client canvasRef now (node_id B)
                        (handleConnectionStart (node_id A) p s))
           = connections s @
               [\<lparr> conn_id = toString now, conn_from = node_id A, conn_to = node_id B,
                  conn_fromPoint = p,
                  conn_toPoint = \<lparr> pt_x = node_x B + node_width B / 2,
                                    pt_y = node_y B + node_height B / 2 \<rparr>,
                  conn_type = curved, conn_label = None \<rparr>]"
proof -
  have fa: "List.find (\<lambda>n. node_id n = node_id A) (nodes s) = Some A"
    using d A by (rule find_by_unique_id)
  have fb: "List.find (\<lambda>n. node_id n = node_id B) (nodes s) = Some B"
    using d B by (rule find_by_unique_id)
  show ?thesis
    using ne nonempty
    by (simp add: handleBlockMouseDown_def handleConnectionStart_def truthy_def fa fb
          center_of_def)
qed

lemma handle_is_not_center:
  assumes "p \<in> set (updateConnectionPoints (node_x A) (node_y A) (node_width A) (node_height A))"
    and "0 < node_width A" and "0 < node_height A"
  shows "p \<noteq> center_of A"
  using assms by (auto simp: updateConnectionPoints_def center_of_def)

text \<open>
  Claim C6, as stated, fails when two distinct blocks carry one identifier. Two texts are
  dropped at the same clock value 1000, so both blocks have the identifier \<open>1000\<close>. A click
  on a handle of the first block followed by a mouse-down on the second creates no
  connection: the handler takes the second block for the armed one and starts a drag.
\<close>

theorem gesture_between_same_id_blocks_counterexample:
  "hd (nodes (run
      [DroppedText (Some ''a'') None None
         (Some \<lparr> rect_left = 0, rect_top = 0, rect_width = 800, rect_height = 600 \<rparr>) 1000,
       DroppedText (Some ''b'') None None
         (Some \<lparr> rect_left = 0, rect_top = 0, rect_width = 800, rect_height = 600 \<rparr>) 1000]
      (initialCanvasPanel 0)))
   \<noteq> last (nodes (run
      [DroppedText (Some ''a'') None None
         (Some \<lparr> rect_left = 0, rect_top = 0, rect_width = 800, rect_height = 600 \<rparr>) 1000,
       DroppedText (Some ''b'') None None
         (Some \<lparr> rect_left = 0, rect_top = 0, rect_width = 800, rect_height = 600 \<rparr>) 1000]
      (initialCanvasPanel 0)))
 \<and> map node_text (nodes (run
      [DroppedText (Some ''a'') None None
         (Some \<lparr> rect_left = 0, rect_top = 0, rect_width = 800, rect_height = 600 \<rparr>) 1000,
       DroppedText (Some ''b'') None None
         (Some \<lparr> rect_left = 0, rect_top = 0, rect_width = 800, rect_height = 600 \<rparr>) 1000]
      (initialCanvasPanel 0))) = [''a'', ''b'']
 \<and> connections (handleBlockMouseDown \<lparr> pt_x = 400, pt_y = 300 \<rparr> None 3000
      (node_id (last (nodes (run
        [DroppedText (Some ''a'') None None
           (Some \<lparr> rect_left = 0, rect_top = 0, rect_width = 800, rect_height = 600 \<rparr>) 1000,
         DroppedText (Some ''b'') None None
           (Some \<lparr> rect_left = 0, rect_top = 0, rect_width = 800, rect_height = 600 \<rparr>) 1000]
        (initialCanvasPanel 0)))))
      (handleConnectionStart
        (node_id (hd (nodes (run
          [DroppedText (Some ''a'') None None
             (Some \<lparr> rect_left = 0, rect_top = 0, rect_width = 800, rect_height = 600 \<rparr>) 1000,
           DroppedText (Some ''b'') None None
             (Some \<lparr> rect_left = 0, rect_top = 0, rect_width = 800, rect_height = 600 \<rparr>) 1000]
          (initialCanvasPanel 0)))))
        \<lparr> pt_x = 520, pt_y = 300 \<rparr>
        (run
          [DroppedText (Some ''a'') None None
             (Some \<lparr> rect_left = 0, rect_top = 0, rect_width = 800, rect_height = 600 \<rparr>) 1000,
           DroppedText (Some ''b'') None None
             (Some \<lparr> rect_left = 0, rect_top = 0, rect_width = 800, rect_height = 600 \<rparr>) 1000]
          (initialCanvasPanel 0)))) = []"
  by code_simp

text \<open>
  Claim C6, amended. Let \<open>A\<close> and \<open>B\<close> be distinct blocks of the working node list of a state the
  component reaches, the identifiers of the list being unique. Clicking a connection
  handle of \<open>A\<close> at the point \<open>p\<close> and then pressing the mouse on the body of \<open>B\<close> adds
  exactly one connection, at the end of the list: it runs from \<open>A\<close> to \<open>B\<close>, its
  \<open>fromPoint\<close> is \<open>p\<close> and its \<open>toPoint\<close> is the centre of \<open>B\<close>. When \<open>p\<close> is one of the four
  handles of a block \<open>A\<close> of positive size, \<open>p\<close> is not the centre of \<open>A\<close>.
\<close>

theorem connection_gesture:
  assumes "A \<in> set (nodes (run es (initialCanvasPanel t0)))"
    and "B \<in> set (nodes (run es (initialCanvasPanel t0)))"
    and "distinct (map node_id (nodes (run es (initialCanvasPanel t0))))"
    and "A \<noteq> B"
  shows "connections (handleBlockMouseDown client canvasRef now (node_id B)
                        (handleConnectionStart (node_id A) p (run es (initialCanvasPanel t0))))
           = connections (run es (initialCanvasPanel t0)) @
               [\<lparr> conn_id = toString now, conn_from = node_id A, conn_to = node_id B,
                  conn_fromPoint = p,
                  conn_toPoint = \<lparr> pt_x = node_x B + node_width B / 2,
                                    pt_y = node_y B + node_height B / 2 \<rparr>,
                  conn_type = curved, conn_label = None \<rparr>]
       \<and> (p \<in> set (updateConnectionPoints (node_x A) (node_y A) (node_width A) (node_height A))
            \<and> 0 < node_width A \<and> 0 < node_height A \<longrightarrow> p \<noteq> center_of A)"
proof -
  let ?s = "run es (initialCanvasPanel t0)"
  have "\<forall>n\<in>set (nodes ?s). node_id n \<noteq> []"
    using run_ids [of "initialCanvasPanel t0" es] by (simp add: initialCanvasPanel_def)
  with assms(1) have nonempty: "node_id A \<noteq> []" by blast
  have ne: "node_id A \<noteq> node_id B"
    using assms by (auto simp: distinct_map inj_on_def)
  show ?thesis
    using gesture_completes [OF assms(1,2,3) ne nonempty] handle_is_not_center [of p A]
    by blast
qed

theorem connection_gesture_witness:
  "let s = run [DroppedText (Some ''hello'') (Some ''1'') (Some ''project-discussion'')
                  (Some \<lparr> rect_left = 0, rect_top = 0, rect_width = 800, rect_height = 600 \<rparr>)
                  1000,
                DroppedText (Some ''world'') (Some ''2'') (Some ''project-discussion'')
                  (Some \<lparr> rect_left = 0, rect_top = 0, rect_width = 800, rect_height = 600 \<rparr>)
                  2000,
                MouseMove \<lparr> pt_x = 10, pt_y = 10 \<rparr> None]
               (initialCanvasPanel 0);
       A = hd (nodes s);
       B = last (nodes s)
   in A \<in> set (nodes s) \<and> B \<in> set (nodes s) \<and> distinct (map node_id (nodes s)) \<and> A \<noteq> B
      \<and> map (\<lambda>c. (conn_from c, conn_to c, conn_fromPoint c, conn_toPoint c))
            (connections (handleBlockMouseDown \<lparr> pt_x = 400, pt_y = 300 \<rparr> None 3000 (node_id B)
               (handleConnectionStart (node_id A) \<lparr> pt_x = 520, pt_y = 300 \<rparr> s)))
          = [(''1000'', ''2000'', \<lparr> pt_x = 520, pt_y = 300 \<rparr>, \<lparr> pt_x = 400, pt_y = 300 \<rparr>)]
      \<and> \<lparr> pt_x = 520, pt_y = 300 \<rparr>
            \<in> set (updateConnectionPoints (node_x A) (node_y A) (node_width A) (node_height A))
      \<and> \<lparr> pt_x = 520, pt_y = 300 \<rparr> \<noteq> center_of A"
proof -
  let ?es = "[DroppedText (Some ''hello'') (Some ''1'') (Some ''project-discussion'')
                  (Some \<lparr> rect_left = 0, rect_top = 0, rect_width = 800, rect_height = 600 \<rparr>)
                  1000,
                DroppedText (Some ''world'') (Some ''2'') (Some ''project-discussion'')
                  (Some \<lparr> rect_left = 0, rect_top = 0, rect_width = 800, rect_height = 600 \<rparr>)
                  2000,
                MouseMove \<lparr> pt_x = 10, pt_y = 10 \<rparr> None]"
  let ?A = "\<lparr> node_id = ''1000'', node_text = ''hello'', node_x = 280, node_y = 240,
              node_width = 240, node_height = 120, node_sourceMessageId = Some ''1'',
              node_sourceChatId = Some ''project-discussion'', node_color = ''#3B82F6'' \<rparr>"
  let ?B = "\<lparr> node_id = ''2000'', node_text = ''world'', node_x = 280, node_y = 240,
              node_width = 240, node_height = 120, node_sourceMessageId = Some ''2'',
              node_sourceChatId = Some ''project-discussion'', node_color = ''#14B8A6'' \<rparr>"
  have ns: "nodes (run ?es (initialCanvasPanel 0)) = [?A, ?B]"
    by code_simp
  have cs: "connections (run ?es (initialCanvasPanel 0)) = []"
    by code_simp
  have hA: "?A \<in> set (nodes (run ?es (initialCanvasPanel 0)))" unfolding ns by simp
  have hB: "?B \<in> set (nodes (run ?es (initialCanvasPanel 0)))" unfolding ns by simp
  have hd: "distinct (map node_id (nodes (run ?es (initialCanvasPanel 0))))"
    unfolding ns by simp
  have hne: "?A \<noteq> ?B" by simp
  have hp: "\<lparr> pt_x = 520, pt_y = 300 \<rparr>
       \<in> set (updateConnectionPoints (node_x ?A) (node_y ?A) (node_width ?A) (node_height ?A))"
    by (simp add: updateConnectionPoints_def)
  from connection_gesture [OF hA hB hd hne,
       of "\<lparr> pt_x = 400, pt_y = 300 \<rparr>" None 3000 "\<lparr> pt_x = 520, pt_y = 300 \<rparr>"] hp
  have "map (\<lambda>c. (conn_from c, conn_to c, conn_fromPoint c, conn_toPoint c))
            (connections (handleBlockMouseDown \<lparr> pt_x = 400, pt_y = 300 \<rparr> None 3000 (node_id ?B)
               (handleConnectionStart (node_id ?A) \<lparr> pt_x = 520, pt_y = 300 \<rparr>
                  (run ?es (initialCanvasPanel 0)))))
          = [(''1000'', ''2000'', \<lparr> pt_x = 520, pt_y = 300 \<rparr>, \<lparr> pt_x = 400, pt_y = 300 \<rparr>)]
      \<and> \<lparr> pt_x = 520, pt_y = 300 \<rparr> \<noteq> center_of ?A"
    unfolding cs by simp
  with hA hB hd hne hp show ?thesis
    unfolding Let_def ns list.sel last.simps by simp
qed

section \<open>Deleting the last canvas or chat\<close>

text \<open>
  Claim C9. When the canvas list holds exactly one canvas, \<open>handleCanvasDelete\<close> reports no
  error and leaves the whole state as it is. When the chat list holds exactly one
  session, the sidebar's \<open>handleDeleteChat\<close> leaves the state of \<open>App\<close> and of \<open>ChatPanel\<close> as
  it is; that handler has no failing path.
\<close>

theorem sole_canvas_and_chat_are_kept:
  "(length (canvases s) = 1 \<longrightarrow> handleCanvasDelete canvasId s = (None, s))
 \<and> (length (chatSessions c) = 1 \<longrightarrow> handleDeleteChat chatId (a, c) = (a, c))"
  by (simp add: handleCanvasDelete_def handleDeleteChat_def)

theorem sole_canvas_and_chat_are_kept_witness:
  "length (canvases (initialCanvasPanel 0)) = 1
 \<and> handleCanvasDelete ''default-canvas'' (initialCanvasPanel 0) = (None, initialCanvasPanel 0)
 \<and> length (chatSessions
       \<lparr> chatSessions = [\<lparr> chat_id = ''personal-notes'', chat_title = ''Personal Notes'',
                            chat_messages = [], chat_lastActivity = 0,
                            chat_unreadCount = None \<rparr>],
         inputValue = [], isTyping = False \<rparr>) = 1
 \<and> handleDeleteChat ''personal-notes''
       (\<lparr> draggedText = None, sourceMsgId = None, sourceChatId = None,
          highlightedMessageId = None, containerWidth = 1200, leftPanelWidth = 500,
          currentChatId = ''personal-notes'', theme = dark, isSidebarOpen = True \<rparr>,
        \<lparr> chatSessions = [\<lparr> chat_id = ''personal-notes'', chat_title = ''Personal Notes'',
                            chat_messages = [], chat_lastActivity = 0,
                            chat_unreadCount = None \<rparr>],
          inputValue = [], isTyping = False \<rparr>)
     = (\<lparr> draggedText = None, sourceMsgId = None, sourceChatId = None,
          highlightedMessageId = None, containerWidth = 1200, leftPanelWidth = 500,
          currentChatId = ''personal-notes'', theme = dark, isSidebarOpen = True \<rparr>,
        \<lparr> chatSessions = [\<lparr> chat_id = ''personal-notes'', chat_title = ''Personal Notes'',
                            chat_messages = [], chat_lastActivity = 0,
                            chat_unreadCount = None \<rparr>],
          inputValue = [], isTyping = False \<rparr>)"
proof -
  have h1: "length (canvases (initialCanvasPanel 0)) = 1"
    by (simp add: initialCanvasPanel_def)
  have h2: "length (chatSessions
       \<lparr> chatSessions = [\<lparr> chat_id = ''personal-notes'', chat_title = ''Personal Notes'',
                            chat_messages = [], chat_lastActivity = 0,
                            chat_unreadCount = None \<rparr>],
         inputValue = [], isTyping = False \<rparr>) = 1"
    by simp
  from h1 h2 sole_canvas_and_chat_are_kept
         [of "initialCanvasPanel 0" "''default-canvas''"
             "\<lparr> chatSessions = [\<lparr> chat_id = ''personal-notes'', chat_title = ''Personal Notes'',
                            chat_messages = [], chat_lastActivity = 0,
                            chat_unreadCount = None \<rparr>],
                inputValue = [], isTyping = False \<rparr>"
             "''personal-notes''"
             "\<lparr> draggedText = None, sourceMsgId = None, sourceChatId = None,
                highlightedMessageId = None, containerWidth = 1200, leftPanelWidth = 500,
                currentChatId = ''personal-notes'', theme = dark, isSidebarOpen = True \<rparr>"]
  show ?thesis by blast
qed

section \<open>Switching the active chat\<close>








section \<open>The simulated reply\<close>





section \<open>Dropping text on the canvas\<close>

lemma Math_round_mono: "u \<le> v \<Longrightarrow> Math_round u \<le> Math_round v"
  by (simp add: Math_round_def floor_mono)

lemma Math_floor_mono: "u \<le> v \<Longrightarrow> Math_floor u \<le> Math_floor v"
  by (simp add: Math_floor_def floor_mono)

lemma Math_floor_nonneg: "0 \<le> v \<Longrightarrow> 0 \<le> Math_floor v"
  by (simp add: Math_floor_def)

lemma Math_round_int: "Math_round (of_int k) = of_int k"
proof -
  have "\<lfloor>(of_int k :: rat) + 1 / 2\<rfloor> = k" by linarith
  then show ?thesis by (simp add: Math_round_def)
qed

text \<open>The width before rounding, as a function of the number of characters.\<close>

lemma calculateInitialSize_width:
  "fst (calculateInitialSize text) =
     Math_round (if of_nat (length text) > (100 :: number)
                 then min 400 (240 + (of_nat (length text) - 100) * (3 / 2)) else 240)"
  by (simp add: calculateInitialSize_def Let_def)

lemma raw_width_mono:
  fixes m n :: number
  assumes "m \<le> n"
  shows "(if m > 100 then min 400 (240 + (m - 100) * (3 / 2)) else 240)
       \<le> (if n > 100 then min 400 (240 + (n - 100) * (3 / 2)) else 240)"
  using assms by (auto simp: min_def)

lemma raw_width_bounds:
  fixes m :: number
  shows "240 \<le> (if m > 100 then min 400 (240 + (m - 100) * (3 / 2)) else 240)
       \<and> (if m > 100 then min 400 (240 + (m - 100) * (3 / 2)) else 240) \<le> 400"
  by (auto simp: min_def)

lemma base_height_mono:
  fixes m n :: number
  assumes "m \<le> n"
  shows "(if m > 100 then min 250 (120 + Math_floor ((m - 100) / 60) * 25) else 120)
       \<le> (if n > 100 then min 250 (120 + Math_floor ((n - 100) / 60) * 25) else 120)"
proof -
  have step: "Math_floor ((m - 100) / 60) \<le> Math_floor ((n - 100) / 60)"
    using assms by (intro Math_floor_mono divide_right_mono) auto
  have pos: "n > 100 \<Longrightarrow> 0 \<le> Math_floor ((n - 100) / 60)"
    by (rule Math_floor_nonneg) simp
  show ?thesis using assms step pos by (auto simp: min_def)
qed

lemma base_height_bounds:
  fixes m :: number
  shows "120 \<le> (if m > 100 then min 250 (120 + Math_floor ((m - 100) / 60) * 25) else 120)
       \<and> (if m > 100 then min 250 (120 + Math_floor ((m - 100) / 60) * 25) else 120) \<le> 250"
proof -
  have pos: "m > 100 \<Longrightarrow> 0 \<le> Math_floor ((m - 100) / 60)"
    by (rule Math_floor_nonneg) simp
  then show ?thesis by (auto simp: min_def)
qed

lemma raw_height_mono:
  fixes h h' w w' :: number
  assumes "h \<le> h'" and "w \<le> w'" and "h' \<le> 250"
  shows "(if w > 20 then min 300 (h + Math_floor ((w - 20) / 12) * 20) else h)
       \<le> (if w' > 20 then min 300 (h' + Math_floor ((w' - 20) / 12) * 20) else h')"
proof -
  have step: "Math_floor ((w - 20) / 12) \<le> Math_floor ((w' - 20) / 12)"
    using assms(2) by (intro Math_floor_mono divide_right_mono) auto
  have pos: "w' > 20 \<Longrightarrow> 0 \<le> Math_floor ((w' - 20) / 12)"
    by (rule Math_floor_nonneg) simp
  show ?thesis using assms step pos by (auto simp: min_def)
qed

lemma raw_height_bounds:
  fixes h w :: number
  assumes "120 \<le> h" and "h \<le> 250"
  shows "120 \<le> (if w > 20 then min 300 (h + Math_floor ((w - 20) / 12) * 20) else h)
       \<and> (if w > 20 then min 300 (h + Math_floor ((w - 20) / 12) * 20) else h) \<le> 300"
proof -
  have pos: "w > 20 \<Longrightarrow> 0 \<le> Math_floor ((w - 20) / 12)"
    by (rule Math_floor_nonneg) simp
  then show ?thesis using assms by (auto simp: min_def)
qed

lemma width_mono:
  assumes "length t1 \<le> length t2"
  shows "fst (calculateInitialSize t1) \<le> fst (calculateInitialSize t2)"
  unfolding calculateInitialSize_width
  by (intro Math_round_mono raw_width_mono) (simp add: assms)

lemma height_mono:
  assumes "length t1 \<le> length t2"
    and "length (split CHR '' '' t1) \<le> length (split CHR '' '' t2)"
  shows "snd (calculateInitialSize t1) \<le> snd (calculateInitialSize t2)"
proof -
  define w1 :: number where "w1 = of_nat (length (split CHR '' '' t1))"
  define w2 :: number where "w2 = of_nat (length (split CHR '' '' t2))"
  define b1 :: number where "b1 =
    (if of_nat (length t1) > (100 :: number)
     then min 250 (120 + Math_floor ((of_nat (length t1) - 100) / 60) * 25) else 120)"
  define b2 :: number where "b2 =
    (if of_nat (length t2) > (100 :: number)
     then min 250 (120 + Math_floor ((of_nat (length t2) - 100) / 60) * 25) else 120)"
  have l: "(of_nat (length t1) :: number) \<le> of_nat (length t2)" using assms(1) by simp
  have w: "w1 \<le> w2" using assms(2) by (simp add: w1_def w2_def)
  have b: "b1 \<le> b2" unfolding b1_def b2_def using l by (rule base_height_mono)
  have top: "b2 \<le> 250" unfolding b2_def using base_height_bounds by blast
  have e1: "snd (calculateInitialSize t1) =
      Math_round (if w1 > 20 then min 300 (b1 + Math_floor ((w1 - 20) / 12) * 20) else b1)"
    by (simp add: calculateInitialSize_def Let_def w1_def b1_def)
  have e2: "snd (calculateInitialSize t2) =
      Math_round (if w2 > 20 then min 300 (b2 + Math_floor ((w2 - 20) / 12) * 20) else b2)"
    by (simp add: calculateInitialSize_def Let_def w2_def b2_def)
  show ?thesis
    unfolding e1 e2 using b w top by (intro Math_round_mono raw_height_mono)
qed

lemma size_bounds:
  "240 \<le> fst (calculateInitialSize t) \<and> fst (calculateInitialSize t) \<le> 400
 \<and> 120 \<le> snd (calculateInitialSize t) \<and> snd (calculateInitialSize t) \<le> 300"
proof -
  define w :: number where "w = of_nat (length (split CHR '' '' t))"
  define b :: number where "b =
    (if of_nat (length t) > (100 :: number)
     then min 250 (120 + Math_floor ((of_nat (length t) - 100) / 60) * 25) else 120)"
  define v :: number where "v =
    (if of_nat (length t) > (100 :: number)
     then min 400 (240 + (of_nat (length t) - 100) * (3 / 2)) else 240)"
  define h :: number where
    "h = (if w > 20 then min 300 (b + Math_floor ((w - 20) / 12) * 20) else b)"
  have bb: "120 \<le> b" "b \<le> 250" unfolding b_def using base_height_bounds by blast+
  have hb: "120 \<le> h" "h \<le> 300" unfolding h_def using raw_height_bounds [OF bb] by blast+
  have vb: "240 \<le> v" "v \<le> 400" unfolding v_def using raw_width_bounds by blast+
  have e1: "fst (calculateInitialSize t) = Math_round v"
    by (simp add: calculateInitialSize_def Let_def v_def)
  have e2: "snd (calculateInitialSize t) = Math_round h"
    by (simp add: calculateInitialSize_def Let_def h_def w_def b_def)
  have r: "Math_round 240 = 240" "Math_round 400 = 400" "Math_round 120 = 120"
    "Math_round 300 = 300"
    using Math_round_int [of 240] Math_round_int [of 400] Math_round_int [of 120]
      Math_round_int [of 300] by simp_all
  from Math_round_mono [OF vb(1)] Math_round_mono [OF vb(2)]
       Math_round_mono [OF hb(1)] Math_round_mono [OF hb(2)]
  show ?thesis unfolding e1 e2 r by simp
qed

text \<open>
  Claim C2, as stated, fails for the height: the first text below has 63 characters in
  32 words, the second has 64 characters in one word; both are non-empty and can be
  dropped. The longer text gets the lower block (120 against 140).
\<close>

theorem height_not_monotone_in_length_counterexample:
  "length ''a a a a a a a a a a a a a a a a a a a a a a a a a a a a a a a a'' \<le> length ''aaaaaaaaaaaaaaaaaaaaaaaaaaaaaaaaaaaaaaaaaaaaaaaaaaaaaaaaaaaaaaaa''
 \<and> ''a a a a a a a a a a a a a a a a a a a a a a a a a a a a a a a a'' \<noteq> [] \<and> ''aaaaaaaaaaaaaaaaaaaaaaaaaaaaaaaaaaaaaaaaaaaaaaaaaaaaaaaaaaaaaaaa'' \<noteq> []
 \<and> snd (calculateInitialSize ''aaaaaaaaaaaaaaaaaaaaaaaaaaaaaaaaaaaaaaaaaaaaaaaaaaaaaaaaaaaaaaaa'') = 120
 \<and> snd (calculateInitialSize ''a a a a a a a a a a a a a a a a a a a a a a a a a a a a a a a a'') = 140
 \<and> \<not> snd (calculateInitialSize ''a a a a a a a a a a a a a a a a a a a a a a a a a a a a a a a a'') \<le> snd (calculateInitialSize ''aaaaaaaaaaaaaaaaaaaaaaaaaaaaaaaaaaaaaaaaaaaaaaaaaaaaaaaaaaaaaaaa'')"
  by code_simp

lemma consume_appends_one:
  assumes "text \<noteq> []" and "draggedText a = Some text"
    and sz: "calculateInitialSize text = (w, h)"
  shows "consume_dropped_text (Some rect) now (a, s)
           = (handleTextDragComplete a,
              s\<lparr> nodes := nodes s @
                 [\<lparr> node_id = toString now, node_text = text,
                    node_x = pt_x (screen_to_canvas (pan s) (zoom s)
                               \<lparr> pt_x = rect_width rect / 2, pt_y = rect_height rect / 2 \<rparr>)
                             - w / 2,
                    node_y = pt_y (screen_to_canvas (pan s) (zoom s)
                               \<lparr> pt_x = rect_width rect / 2, pt_y = rect_height rect / 2 \<rparr>)
                             - h / 2,
                    node_width = w, node_height = h,
                    node_sourceMessageId = or_undefined (sourceMsgId a),
                    node_sourceChatId = or_undefined (sourceChatId a),
                    node_color = colors ! (length (nodes s) mod length colors) \<rparr>] \<rparr>)"
  using assms(1,2)
  by (simp add: consume_dropped_text_def dropped_text_effect_def sz Let_def)

lemma consume_again_is_idle:
  "consume_dropped_text canvasRef now (handleTextDragComplete a, s)
     = (handleTextDragComplete a, s)"
  by (simp add: consume_dropped_text_def dropped_text_effect_def handleTextDragComplete_def)

text \<open>
  Claim C2, amended. For a non-empty dropped text, consuming the pending drag transfer
  appends exactly one block to the working node list and clears the transfer, so that
  running the effect again changes nothing. The block carries the text and has the size
  that \<open>calculateInitialSize\<close> gives: a width between 200 and 600 and a height between
  100 and 500. The width is a non-decreasing function of the length of the text. The
  height is non-decreasing in the length and the number of space-separated words taken
  together; it is not a function of the length alone.
\<close>

theorem dropped_text_block:
  assumes "text \<noteq> []" and "draggedText a = Some text"
  shows "(\<exists>n. consume_dropped_text (Some rect) now (a, s)
                = (handleTextDragComplete a, s\<lparr> nodes := nodes s @ [n] \<rparr>)
            \<and> node_text n = text
            \<and> (node_width n, node_height n) = calculateInitialSize text
            \<and> 200 \<le> node_width n \<and> node_width n \<le> 600
            \<and> 100 \<le> node_height n \<and> node_height n \<le> 500)
       \<and> consume_dropped_text canvasRef' now' (consume_dropped_text (Some rect) now (a, s))
            = consume_dropped_text (Some rect) now (a, s)
       \<and> (\<forall>t1 t2. length t1 \<le> length t2 \<longrightarrow>
              fst (calculateInitialSize t1) \<le> fst (calculateInitialSize t2))
       \<and> (\<forall>t1 t2. length t1 \<le> length t2
                  \<and> length (split CHR '' '' t1) \<le> length (split CHR '' '' t2) \<longrightarrow>
              snd (calculateInitialSize t1) \<le> snd (calculateInitialSize t2))"
proof -
  obtain w h where sz: "calculateInitialSize text = (w, h)"
    by (cases "calculateInitialSize text")
  from size_bounds [of "text"] sz
  have bounds: "200 \<le> w" "w \<le> 600" "100 \<le> h" "h \<le> 500" by simp_all
  note first = consume_appends_one [OF assms sz, of rect now s]
  have one: "\<exists>n. consume_dropped_text (Some rect) now (a, s)
                = (handleTextDragComplete a, s\<lparr> nodes := nodes s @ [n] \<rparr>)
            \<and> node_text n = text
            \<and> (node_width n, node_height n) = calculateInitialSize text
            \<and> 200 \<le> node_width n \<and> node_width n \<le> 600
            \<and> 100 \<le> node_height n \<and> node_height n \<le> 500"
  proof (rule exI, intro conjI)
    show "consume_dropped_text (Some rect) now (a, s)
            = (handleTextDragComplete a,
               s\<lparr> nodes := nodes s @
                 [\<lparr> node_id = toString now, node_text = text,
                    node_x = pt_x (screen_to_canvas (pan s) (zoom s)
                               \<lparr> pt_x = rect_width rect / 2, pt_y = rect_height rect / 2 \<rparr>)
                             - w / 2,
                    node_y = pt_y (screen_to_canvas (pan s) (zoom s)
                               \<lparr> pt_x = rect_width rect / 2, pt_y = rect_height rect / 2 \<rparr>)
                             - h / 2,
                    node_width = w, node_height = h,
                    node_sourceMessageId = or_undefined (sourceMsgId a),
                    node_sourceChatId = or_undefined (sourceChatId a),
                    node_color = colors ! (length (nodes s) mod length colors) \<rparr>] \<rparr>)"
      by (rule first)
  qed (simp_all add: sz bounds)
  have again: "consume_dropped_text canvasRef' now' (consume_dropped_text (Some rect) now (a, s))
            = consume_dropped_text (Some rect) now (a, s)"
    unfolding first by (rule consume_again_is_idle)
  have wm: "\<forall>t1 t2. length t1 \<le> length t2 \<longrightarrow>
              fst (calculateInitialSize t1) \<le> fst (calculateInitialSize t2)"
    using width_mono by simp
  have hm: "\<forall>t1 t2. length t1 \<le> length t2
                  \<and> length (split CHR '' '' t1) \<le> length (split CHR '' '' t2) \<longrightarrow>
              snd (calculateInitialSize t1) \<le> snd (calculateInitialSize t2)"
    using height_mono by simp
  show ?thesis
    by (rule conjI [OF one conjI [OF again conjI [OF wm hm]]])
qed

theorem dropped_text_block_witness:
  "''hello'' \<noteq> []
 \<and> draggedText \<lparr> draggedText = Some ''hello'', sourceMsgId = Some ''1'',
                  sourceChatId = Some ''project-discussion'', highlightedMessageId = None,
                  containerWidth = 1200, leftPanelWidth = 500,
                  currentChatId = ''project-discussion'', theme = dark,
                  isSidebarOpen = False \<rparr> = Some ''hello''
 \<and> length (nodes (snd (consume_dropped_text
       (Some \<lparr> rect_left = 0, rect_top = 0, rect_width = 800, rect_height = 600 \<rparr>) 1000
       (\<lparr> draggedText = Some ''hello'', sourceMsgId = Some ''1'',
          sourceChatId = Some ''project-discussion'', highlightedMessageId = None,
          containerWidth = 1200, leftPanelWidth = 500,
          currentChatId = ''project-discussion'', theme = dark,
          isSidebarOpen = False \<rparr>, initialCanvasPanel 0)))) = 1
 \<and> draggedText (fst (consume_dropped_text
       (Some \<lparr> rect_left = 0, rect_top = 0, rect_width = 800, rect_height = 600 \<rparr>) 1000
       (\<lparr> draggedText = Some ''hello'', sourceMsgId = Some ''1'',
          sourceChatId = Some ''project-discussion'', highlightedMessageId = None,
          containerWidth = 1200, leftPanelWidth = 500,
          currentChatId = ''project-discussion'', theme = dark,
          isSidebarOpen = False \<rparr>, initialCanvasPanel 0))) = None
 \<and> calculateInitialSize ''hello'' = (240, 120)"
proof -
  let ?a = "\<lparr> draggedText = Some ''hello'', sourceMsgId = Some ''1'',
          sourceChatId = Some ''project-discussion'', highlightedMessageId = None,
          containerWidth = 1200, leftPanelWidth = 500,
          currentChatId = ''project-discussion'', theme = dark,
          isSidebarOpen = False \<rparr>"
  let ?r = "\<lparr> rect_left = 0, rect_top = 0, rect_width = 800, rect_height = 600 \<rparr>"
  have h1: "''hello'' \<noteq> []" by simp
  have h2: "draggedText ?a = Some ''hello''" by simp
  have sz: "calculateInitialSize ''hello'' = (240, 120)" by code_simp
  note inst = dropped_text_block [OF h1 h2, of ?r 1000 "initialCanvasPanel 0"]
  from conjunct1 [OF inst]
  obtain n where n: "consume_dropped_text (Some ?r) 1000 (?a, initialCanvasPanel 0)
      = (handleTextDragComplete ?a,
         (initialCanvasPanel 0)\<lparr> nodes := nodes (initialCanvasPanel 0) @ [n] \<rparr>)"
    by (elim exE conjE)
  have len: "length (nodes (snd (consume_dropped_text (Some ?r) 1000
               (?a, initialCanvasPanel 0)))) = 1"
    unfolding n by (simp add: initialCanvasPanel_def)
  have cleared: "draggedText (fst (consume_dropped_text (Some ?r) 1000
               (?a, initialCanvasPanel 0))) = None"
    unfolding n by (simp add: handleTextDragComplete_def)
  from h1 h2 len cleared sz show ?thesis by (intro conjI)
qed


end
